theory Spec2Isabelle
  imports Complex_Main "HOL-Library.Word" "HOL-Library.Countable" "HOL-Library.Signed_Division"
begin

text \<open>
  A model of the reading layer \<open>velour_api/crud/_read.py\<close>: the area filters and the
  statement builders around them, the reconstruction of a full mask from a stored raster,
  and the walk that collects the label identities of an image. Functions keep their
  names, without the leading underscore; \<open>stmt.where\<close> is \<open>stmt_where\<close> and \<open>and_\<close> is
  \<open>And_clause\<close>. An exception is a value \<open>Inl e\<close> of the result, a return is \<open>Inr\<close>.
\<close>

section \<open>Tasks and errors\<close>

text \<open>
  Modelled from the spec: the enumeration \<open>Task\<close> (\<open>velour_api.enums\<close>, also reached as
  \<open>schemas.Task\<close>) is declared outside \<open>crud/\<close>. Its members are the three that
  \<open>_read.py\<close> names and the classification kind of the spec's \<open>TaskKind\<close>. A task
  parameter of the source may also be \<open>None\<close>, so it is a \<open>Task option\<close> here.
\<close>

datatype Task =
    BBOX_OBJECT_DETECTION
  | POLY_OBJECT_DETECTION
  | INSTANCE_SEGMENTATION
  | IMAGE_CLASSIFICATION

text \<open>
  The exceptions that \<open>crud/_read.py\<close> and the library calls it makes can raise, by
  Python class and by the place that raises them.
\<close>

datatype value_error =
    Expected_task_for_area_computation "Task option"
  | Expected_detection_task "Task option"
  | Empty_sequence
  | Images_do_not_match
  | Negative_size

datatype assertion =
    Len_coordinates_is_1
  | Raster_mode_is_L

datatype system_error =
    Tile_cannot_extend_outside_image

datatype error =
    ValueError value_error
  | AssertionError assertion
  | OverflowError
  | MemoryError
  | SystemError system_error

section \<open>Select statements\<close>

datatype model_cls =
    Dataset
  | Model
  | Image
  | GroundTruthDetection
  | PredictedDetection
  | GroundTruthSegmentation
  | PredictedSegmentation
  | LabeledGroundTruthDetection
  | LabeledPredictedDetection
  | LabeledGroundTruthSegmentation
  | LabeledPredictedSegmentation

text \<open>
  A column expression of the query language: mapped columns, literals, the geometry
  functions of the spatial store, and the comparisons that the filters add. The store
  evaluates them; the reading layer only builds them. The bounds are Python floats that
  are placed in the statement and never computed with; they are real numbers here.
\<close>

datatype sql_expr =
    Column model_cls string
  | Str_lit string
  | Bool_lit bool
  | Eq sql_expr sql_expr
  | And_clause "sql_expr list"
  | ST_Area sql_expr
  | ST_Envelope sql_expr
  | ST_ConvexHull sql_expr
  | ST_Boundary sql_expr
  | ST_Polygon sql_expr
  | ST_Count sql_expr
  | Ge sql_expr real
  | Le sql_expr real

record Select =
  entity :: model_cls
  joins :: "model_cls list"
  whereclause :: "sql_expr list"

definition select :: "model_cls \<Rightarrow> Select" where
  "select m = \<lparr>entity = m, joins = [], whereclause = []\<rparr>"

definition join :: "model_cls \<Rightarrow> Select \<Rightarrow> Select" where
  "join m stmt = stmt\<lparr>joins := joins stmt @ [m]\<rparr>"

definition stmt_where :: "sql_expr \<Rightarrow> Select \<Rightarrow> Select" where
  "stmt_where c stmt = stmt\<lparr>whereclause := whereclause stmt @ [c]\<rparr>"

text \<open>
  The two trailing \<open>if ... is not None: stmt = stmt.where(...)\<close> of both filters.
\<close>

definition add_bounds ::
  "(sql_expr \<Rightarrow> sql_expr) \<Rightarrow> sql_expr \<Rightarrow> real option \<Rightarrow> real option \<Rightarrow> Select \<Rightarrow> Select" where
  "add_bounds area_fn col min_area max_area stmt =
     (let stmt1 = (case min_area of None \<Rightarrow> stmt | Some lo \<Rightarrow> stmt_where (Ge (area_fn col) lo) stmt)
      in (case max_area of None \<Rightarrow> stmt1 | Some hi \<Rightarrow> stmt_where (Le (area_fn col) hi) stmt1))"

definition filter_instance_segmentations_by_area ::
  "Select \<Rightarrow> model_cls \<Rightarrow> Task option \<Rightarrow> real option \<Rightarrow> real option \<Rightarrow> error + Select" where
  "filter_instance_segmentations_by_area stmt seg_table task_for_area_computation min_area max_area =
     (if min_area = None \<and> max_area = None then Inr stmt
      else
        let area_fn =
          (if task_for_area_computation = Some BBOX_OBJECT_DETECTION
             then (\<lambda>x. ST_Area (ST_Envelope x))
           else if task_for_area_computation = Some POLY_OBJECT_DETECTION
             then (\<lambda>x. ST_Area (ST_ConvexHull (ST_Boundary (ST_Polygon x))))
           else ST_Count)
        in Inr (add_bounds area_fn (Column seg_table ''shape'') min_area max_area stmt))"

definition filter_object_detections_by_area ::
  "Select \<Rightarrow> model_cls \<Rightarrow> Task option \<Rightarrow> real option \<Rightarrow> real option \<Rightarrow> error + Select" where
  "filter_object_detections_by_area stmt det_table task_for_area_computation min_area max_area =
     (if min_area = None \<and> max_area = None then Inr stmt
      else if task_for_area_computation = Some BBOX_OBJECT_DETECTION
        then Inr (add_bounds (\<lambda>x. ST_Area (ST_Envelope x)) (Column det_table ''boundary'')
                    min_area max_area stmt)
      else if task_for_area_computation = Some POLY_OBJECT_DETECTION
        then Inr (add_bounds ST_Area (Column det_table ''boundary'') min_area max_area stmt)
      else Inl (ValueError (Expected_task_for_area_computation task_for_area_computation)))"

definition instance_segmentations_in_dataset_statement ::
  "string \<Rightarrow> real option \<Rightarrow> real option \<Rightarrow> Task option \<Rightarrow> error + Select" where
  "instance_segmentations_in_dataset_statement dataset_name min_area max_area task_for_area_computation =
     filter_instance_segmentations_by_area
       (stmt_where (And_clause [Column GroundTruthSegmentation ''is_instance'',
                      Eq (Column Dataset ''name'') (Str_lit dataset_name)])
          (join Dataset (join Image (join GroundTruthSegmentation
             (select LabeledGroundTruthSegmentation)))))
       GroundTruthSegmentation task_for_area_computation min_area max_area"

definition object_detections_in_dataset_statement ::
  "string \<Rightarrow> Task option \<Rightarrow> real option \<Rightarrow> real option \<Rightarrow> Task option \<Rightarrow> error + Select" where
  "object_detections_in_dataset_statement dataset_name task min_area max_area task_for_area_computation =
     (if task \<notin> set [Some POLY_OBJECT_DETECTION, Some BBOX_OBJECT_DETECTION]
        then Inl (ValueError (Expected_detection_task task))
      else filter_object_detections_by_area
        (stmt_where (And_clause [Eq (Column Dataset ''name'') (Str_lit dataset_name),
                       Eq (Column GroundTruthDetection ''is_bbox'')
                          (Bool_lit (task = Some BBOX_OBJECT_DETECTION))])
           (join Dataset (join Image (join GroundTruthDetection
              (select LabeledGroundTruthDetection)))))
        GroundTruthDetection task_for_area_computation min_area max_area)"

definition model_instance_segmentation_preds_statement ::
  "string \<Rightarrow> string \<Rightarrow> real option \<Rightarrow> real option \<Rightarrow> Task option \<Rightarrow> error + Select" where
  "model_instance_segmentation_preds_statement model_name dataset_name min_area max_area
       task_for_area_computation =
     filter_instance_segmentations_by_area
       (stmt_where (And_clause [Eq (Column Model ''name'') (Str_lit model_name),
                      Eq (Column Dataset ''name'') (Str_lit dataset_name),
                      Column PredictedSegmentation ''is_instance''])
          (join Dataset (join Model (join Image (join PredictedSegmentation
             (select LabeledPredictedSegmentation))))))
       PredictedSegmentation task_for_area_computation min_area max_area"

definition model_object_detection_preds_statement ::
  "string \<Rightarrow> string \<Rightarrow> Task option \<Rightarrow> real option \<Rightarrow> real option \<Rightarrow> Task option
     \<Rightarrow> error + Select" where
  "model_object_detection_preds_statement model_name dataset_name task min_area max_area
       task_for_area_computation =
     (if task \<notin> set [Some POLY_OBJECT_DETECTION, Some BBOX_OBJECT_DETECTION]
        then Inl (ValueError (Expected_detection_task task))
      else filter_object_detections_by_area
        (stmt_where (And_clause [Eq (Column Model ''name'') (Str_lit model_name),
                       Eq (Column Dataset ''name'') (Str_lit dataset_name),
                       Eq (Column PredictedDetection ''is_bbox'')
                          (Bool_lit (task = Some BBOX_OBJECT_DETECTION))])
           (join Dataset (join Model (join Image (join PredictedDetection
              (select LabeledPredictedDetection))))))
        PredictedDetection task_for_area_computation min_area max_area)"


section \<open>Raster masks\<close>

subsection \<open>Images of the imaging library\<close>

text \<open>
  An 8-bit single-band image as the imaging library (Pillow) holds it: its mode, its
  size and one list of bytes per row (\<open>image8[y][x]\<close> in the library's core). Modes
  \<open>L\<close> (greyscale) and \<open>1\<close> (two-level, stored as 0 and 255) are of this kind. For
  any other mode only the mode and the size are read by \<open>_raster_to_png_b64\<close>, which
  rejects the image before it touches a pixel.
\<close>

type_synonym pixel = "8 word"

record pil_image =
  mode :: string
  xsize :: nat
  ysize :: nat
  image8 :: "pixel list list"

definition wf_image :: "pil_image \<Rightarrow> bool" where
  "wf_image im = (length (image8 im) = ysize im
                  \<and> list_all (\<lambda>row. length row = xsize im) (image8 im))"

text \<open>\<open>im.getpixel((x, y))\<close>, read inside the image only.\<close>

definition getpixel :: "pil_image \<Rightarrow> nat \<Rightarrow> nat \<Rightarrow> pixel" where
  "getpixel im x y = image8 im ! y ! x"

text \<open>
  The library's core is written in C: a coordinate or a size reaches it as a 32-bit
  \<open>int\<close>. A Python integer outside that range is refused when it is handed over
  (OverflowError); inside the core, sums and differences wrap around.
\<close>

definition in_c_int :: "int \<Rightarrow> bool" where
  "in_c_int v = (- (2 ^ 31) \<le> v \<and> v < 2 ^ 31)"

definition c_int :: "int \<Rightarrow> int" where
  "c_int v = (v + 2 ^ 31) mod 2 ^ 32 - 2 ^ 31"

text \<open>
  \<open>Image.new(size, mode)\<close> with the default colour 0. A negative width or height is a
  ValueError; one beyond the C range an OverflowError; a width above
  \<open>INT_MAX / 4 - 1\<close> is refused by the core's line-size check (MemoryError). Running
  out of memory on an image within these limits belongs to the machine, not to the
  input, and is not modelled.
\<close>

definition Image_new :: "int \<times> int \<Rightarrow> string \<Rightarrow> error + pil_image" where
  "Image_new sz md =
     (let (w, h) = sz in
      if w < 0 \<or> h < 0 then Inl (ValueError Negative_size)
      else if \<not> in_c_int w \<or> \<not> in_c_int h then Inl OverflowError
      else if w > 536870910 then Inl MemoryError
      else Inr \<lparr>mode = md, xsize = nat w, ysize = nat h,
                image8 = replicate (nat h) (replicate (nat w) 0)\<rparr>)"

text \<open>
  \<open>Image.paste(im, box)\<close> with a 4-tuple box and no mask, for two images of one mode.
  The four coordinates are handed to the core as C integers. The core refuses a box
  whose size is not the size of the pasted image (ValueError, "images do not match"),
  clips the region to the destination, and copies the remaining region row by row
  (\<open>memcpy\<close> of \<open>xsize\<close> bytes from column \<open>sx\<close> of the source row to column \<open>dx\<close> of
  the destination row). Its arithmetic is written with the wrap-around. A box whose
  right edge lies left of its left edge by more than the C range can pass the size
  check through the wrap-around; the core then copies outside the image, which no list
  can express. \<open>_get_bounding_box_of_raster\<close> never gives such a box (a minimum is
  not above a maximum).
\<close>

definition memcpy :: "pixel list \<Rightarrow> nat \<Rightarrow> pixel list \<Rightarrow> nat \<Rightarrow> nat \<Rightarrow> pixel list" where
  "memcpy dst dx src sx n = take dx dst @ take n (drop sx src) @ drop (dx + n) dst"

definition paste_region ::
  "pixel list list \<Rightarrow> pixel list list \<Rightarrow> nat \<Rightarrow> nat \<Rightarrow> nat \<Rightarrow> nat \<Rightarrow> nat \<Rightarrow> nat
     \<Rightarrow> pixel list list" where
  "paste_region out inp dx dy sx sy xs ys =
     fold (\<lambda>y out. out[y + dy := memcpy (out ! (y + dy)) dx (inp ! (y + sy)) sx xs])
       [0..<ys] out"

text \<open>
  The clipping of one axis, which the core writes out twice, for x and for y: from the
  start \<open>d0\<close> and the length \<open>n\<close> of the region and the size of the destination to the
  clipped length, the start in the source and the start in the destination.
\<close>

definition clip_axis :: "int \<Rightarrow> int \<Rightarrow> int \<Rightarrow> int \<times> int \<times> int" where
  "clip_axis d0 n size_out =
     (let (n, s0, d0) = (if d0 < 0 then (c_int (n + d0), c_int (- d0), 0) else (n, 0, d0));
          n = (if c_int (d0 + n) > size_out then c_int (size_out - d0) else n)
      in (n, s0, d0))"

definition paste :: "pil_image \<Rightarrow> pil_image \<Rightarrow> int \<times> int \<times> int \<times> int \<Rightarrow> error + pil_image" where
  "paste imOut imIn box =
     (let (dx0, dy0, dx1, dy1) = box in
      if \<not> (in_c_int dx0 \<and> in_c_int dy0 \<and> in_c_int dx1 \<and> in_c_int dy1)
        then Inl OverflowError
      else
        let xs = c_int (dx1 - dx0);
            ys = c_int (dy1 - dy0)
        in if xs \<noteq> int (xsize imIn) \<or> ys \<noteq> int (ysize imIn)
             then Inl (ValueError Images_do_not_match)
           else
             let (xs, sx0, dx0) = clip_axis dx0 xs (int (xsize imOut));
                 (ys, sy0, dy0) = clip_axis dy0 ys (int (ysize imOut))
             in if xs \<le> 0 \<or> ys \<le> 0 then Inr imOut
                else Inr (imOut\<lparr>image8 :=
                       paste_region (image8 imOut) (image8 imIn)
                         (nat dx0) (nat dy0) (nat sx0) (nat sy0) (nat xs) (nat ys)\<rparr>))"

text \<open>\<open>Image.point(f)\<close> on an 8-bit image: every pixel through the function.\<close>

definition point :: "(pixel \<Rightarrow> pixel) \<Rightarrow> pil_image \<Rightarrow> pil_image" where
  "point f im = im\<lparr>image8 := map (map f) (image8 im)\<rparr>"

text \<open>
  \<open>Image.convert("1")\<close> of an \<open>L\<close> image, with the library's default Floyd-Steinberg
  dithering. Each pixel, plus the error carried to it, is clipped to a byte and becomes
  255 if it exceeds 128 and 0 otherwise; the difference is carried to the right (7/16)
  and, through the array \<open>errors\<close>, to the three neighbours in the next row (3/16, 5/16,
  1/16). The division is C's, truncating towards zero.
\<close>

definition CLIP8 :: "int \<Rightarrow> int" where
  "CLIP8 v = (if v \<le> 0 then 0 else if v < 256 then v else 255)"

fun tobilevel_row ::
  "int list \<Rightarrow> nat \<Rightarrow> int \<Rightarrow> int \<Rightarrow> int \<Rightarrow> pixel list \<Rightarrow> pixel list \<times> int list" where
  "tobilevel_row errors x l l0 l1 [] = ([], errors[x := l0])"
| "tobilevel_row errors x l l0 l1 (p # ps) =
     (let l = CLIP8 (uint p + (l + errors ! (x + 1)) sdiv 16);
          out = (if l > 128 then 255 else 0);
          l = l - out;
          l2 = l;
          d2 = l + l;
          l = l + d2;
          errors = errors[x := l + l0];
          l = l + d2;
          l0 = l + l1;
          l1 = l2;
          l = l + d2;
          (outs, errors) = tobilevel_row errors (x + 1) l l0 l1 ps
      in (word_of_int out # outs, errors))"

fun tobilevel_rows :: "int list \<Rightarrow> pixel list list \<Rightarrow> pixel list list" where
  "tobilevel_rows errors [] = []"
| "tobilevel_rows errors (row # rows) =
     (let (out, errors) = tobilevel_row errors 0 0 0 0 row
      in out # tobilevel_rows errors rows)"

definition convert_1 :: "pil_image \<Rightarrow> pil_image" where
  "convert_1 im =
     im\<lparr>mode := ''1'',
        image8 := tobilevel_rows (replicate (xsize im + 1) 0) (image8 im)\<rparr>"

subsection \<open>Reconstruction of the full mask\<close>

text \<open>
  What the session answers for a stored raster: the coordinates of the GeoJSON of its
  envelope (\<open>ST_AsGeoJSON(ST_Envelope(raster))\<close>, a list of rings of points with integer
  pixel coordinates, as the function's return type says) and the image that its PNG
  rendering (\<open>ST_AsPNG(raster)\<close>) opens as.
\<close>

record 'r Session =
  envelope_coordinates :: "'r \<Rightarrow> (int \<times> int) list list"
  png_image :: "'r \<Rightarrow> pil_image"

text \<open>
  Modelled from the spec: \<open>schemas.Image\<close> is declared outside \<open>crud/\<close>; its fields are
  those that \<open>_read.py\<close> passes to its constructor, with the owning image's declared
  dimensions as integers.
\<close>

record Image_schema =
  uid :: string
  height :: int
  width :: int
  frame :: "int option"

text \<open>Python's \<open>min\<close> and \<open>max\<close> of a list that is not empty.\<close>

definition py_min :: "int list \<Rightarrow> int" where
  "py_min xs = fold min (tl xs) (hd xs)"

definition py_max :: "int list \<Rightarrow> int" where
  "py_max xs = fold max (tl xs) (hd xs)"

definition get_bounding_box_of_raster ::
  "'r Session \<Rightarrow> 'r \<Rightarrow> error + (int \<times> int \<times> int \<times> int)" where
  "get_bounding_box_of_raster db raster =
     (let coordinates = envelope_coordinates db raster in
      if length coordinates \<noteq> 1 then Inl (AssertionError Len_coordinates_is_1)
      else
        let xs = map fst (coordinates ! 0);
            ys = map snd (coordinates ! 0)
        in if xs = [] then Inl (ValueError Empty_sequence)
           else Inr (py_min xs, py_min ys, py_max xs, py_max ys))"

text \<open>
  \<open>_raster_to_png_b64\<close> up to and including \<open>.convert("1")\<close>: the full mask, before it
  is written out.
\<close>

definition raster_full_mask :: "'r Session \<Rightarrow> 'r \<Rightarrow> Image_schema \<Rightarrow> error + pil_image" where
  "raster_full_mask db raster img =
     (case get_bounding_box_of_raster db raster of
        Inl e \<Rightarrow> Inl e
      | Inr enveloping_box \<Rightarrow>
          let raster_im = png_image db raster in
          if mode raster_im \<noteq> ''L'' then Inl (AssertionError Raster_mode_is_L)
          else
            (case Image_new (width img, height img) (mode raster_im) of
               Inl e \<Rightarrow> Inl e
             | Inr ret \<Rightarrow>
                 (case paste ret raster_im enveloping_box of
                    Inl e \<Rightarrow> Inl e
                  | Inr ret \<Rightarrow>
                      Inr (convert_1 (point (\<lambda>x. if x = 1 then 255 else 0) ret)))))"

text \<open>
  The whole function. The PNG writer (\<open>ret.save(f, format="PNG")\<close>) refuses an image
  without pixels, of width 0 or height 0 (SystemError, "tile cannot extend outside
  image"). What it writes for any other image, and what \<open>b64encode\<close> makes of the
  bytes, are parameters: the claims need of them only that no mask is lost.
\<close>

definition raster_to_png_b64 ::
  "(pil_image \<Rightarrow> 8 word list) \<Rightarrow> (8 word list \<Rightarrow> string) \<Rightarrow> 'r Session \<Rightarrow> 'r \<Rightarrow> Image_schema
     \<Rightarrow> error + string" where
  "raster_to_png_b64 save_png b64encode db raster img =
     (case raster_full_mask db raster img of
        Inl e \<Rightarrow> Inl e
      | Inr ret \<Rightarrow>
          if xsize ret = 0 \<or> ysize ret = 0
            then Inl (SystemError Tile_cannot_extend_outside_image)
          else Inr (b64encode (save_png ret)))"

subsection \<open>A lossless stand-in for the writers\<close>

text \<open>
  One writer pair that loses no image, with its reader: an image is numbered, the
  number is written as that many bytes, and each byte as one character. It is used only
  where an instance of "the writers lose no image" has to be exhibited.
\<close>

definition unary_save :: "pil_image \<Rightarrow> 8 word list" where
  "unary_save im =
     replicate (to_nat (map of_char (mode im) :: nat list, xsize im, ysize im,
                        map (map unat) (image8 im))) 0"

definition unary_b64 :: "8 word list \<Rightarrow> string" where
  "unary_b64 bs = replicate (length bs) (CHR ''A'')"

definition unary_load :: "string \<Rightarrow> pil_image" where
  "unary_load s =
     (case from_nat (length s) of
        (md, w, h, rs) \<Rightarrow>
          \<lparr>mode = map char_of (md :: nat list), xsize = w, ysize = h,
           image8 = map (map of_nat) rs\<rparr>)"

section \<open>Labels of an image\<close>

text \<open>
  The rows that \<open>_get_unique_label_ids_in_image\<close> walks. A list holds one entry per row
  object, so two equal entries are two objects with the same fields.
\<close>

record Label =
  label_id :: int
  label_key :: string
  label_value :: string

record labeled_row =
  label :: Label

record detection_row =
  labeled_ground_truth_detections :: "labeled_row list"

record segmentation_row =
  labeled_ground_truth_segmentations :: "labeled_row list"

record image_row =
  ground_truth_detections :: "detection_row list"
  ground_truth_classifications :: "labeled_row list"
  ground_truth_segmentations :: "segmentation_row list"

definition get_unique_label_ids_in_image :: "image_row \<Rightarrow> int set" where
  "get_unique_label_ids_in_image img =
     (let ret = {};
          ret = fold (\<lambda>det ret.
                  fold (\<lambda>labeled_det ret. insert (label_id (label labeled_det)) ret)
                    (labeled_ground_truth_detections det) ret)
                  (ground_truth_detections img) ret;
          ret = fold (\<lambda>clf ret. insert (label_id (label clf)) ret)
                  (ground_truth_classifications img) ret;
          ret = fold (\<lambda>seg ret.
                  fold (\<lambda>labeled_seg ret. insert (label_id (label labeled_seg)) ret)
                    (labeled_ground_truth_segmentations seg) ret)
                  (ground_truth_segmentations img) ret
      in ret)"

text \<open>
  The labels an image carries, one entry per carrying row, in the order of the walk:
  the reference that the set of identities is compared with.
\<close>

definition labels_carried :: "image_row \<Rightarrow> Label list" where
  "labels_carried img =
     concat (map (\<lambda>det. map label (labeled_ground_truth_detections det))
               (ground_truth_detections img))
     @ map label (ground_truth_classifications img)
     @ concat (map (\<lambda>seg. map label (labeled_ground_truth_segmentations seg))
                 (ground_truth_segmentations img))"

section \<open>Area filtering\<close>

lemma whereclause_add_bounds_both:
  "add_bounds f c (Some lo) (Some hi) stmt =
     stmt\<lparr>whereclause := whereclause stmt @ [Ge (f c) lo, Le (f c) hi]\<rparr>"
  by (simp add: add_bounds_def stmt_where_def)

text \<open>
  C5. With neither bound given, both filters hand back the statement they received,
  whatever the statement, the table and the task.
\<close>

theorem area_filter_unbounded_is_identity:
  "filter_instance_segmentations_by_area stmt seg_table task None None = Inr stmt
   \<and> filter_object_detections_by_area stmt det_table task None None = Inr stmt"
  by (simp add: filter_instance_segmentations_by_area_def filter_object_detections_by_area_def)

text \<open>
  C6. The area function by entity kind and task, once a bound is given. Detections: the
  area of the envelope for the bounding-box task, the area of the stored polygon for the
  polygon task. Instance segmentations: the area of the envelope for the bounding-box
  task, the area of the convex hull of the boundary of the mask's polygon for the polygon
  task, and the pixel count when the task is absent or is the segmentation task itself.
\<close>

theorem task_area_function_mapping:
  assumes "min_area \<noteq> None \<or> max_area \<noteq> None"
  shows "filter_object_detections_by_area stmt det_table (Some BBOX_OBJECT_DETECTION) min_area max_area
           = Inr (add_bounds (\<lambda>x. ST_Area (ST_Envelope x)) (Column det_table ''boundary'')
                    min_area max_area stmt)
       \<and> filter_object_detections_by_area stmt det_table (Some POLY_OBJECT_DETECTION) min_area max_area
           = Inr (add_bounds (\<lambda>x. ST_Area x) (Column det_table ''boundary'') min_area max_area stmt)
       \<and> filter_instance_segmentations_by_area seg_stmt seg_table (Some BBOX_OBJECT_DETECTION)
             min_area max_area
           = Inr (add_bounds (\<lambda>x. ST_Area (ST_Envelope x)) (Column seg_table ''shape'')
                    min_area max_area seg_stmt)
       \<and> filter_instance_segmentations_by_area seg_stmt seg_table (Some POLY_OBJECT_DETECTION)
             min_area max_area
           = Inr (add_bounds (\<lambda>x. ST_Area (ST_ConvexHull (ST_Boundary (ST_Polygon x))))
                    (Column seg_table ''shape'') min_area max_area seg_stmt)
       \<and> filter_instance_segmentations_by_area seg_stmt seg_table None min_area max_area
           = Inr (add_bounds (\<lambda>x. ST_Count x) (Column seg_table ''shape'') min_area max_area seg_stmt)
       \<and> filter_instance_segmentations_by_area seg_stmt seg_table (Some INSTANCE_SEGMENTATION)
             min_area max_area
           = Inr (add_bounds (\<lambda>x. ST_Count x) (Column seg_table ''shape'') min_area max_area seg_stmt)"
  using assms
  by (auto simp: filter_instance_segmentations_by_area_def filter_object_detections_by_area_def)

theorem task_area_function_mapping_witness:
  "filter_object_detections_by_area (select LabeledGroundTruthDetection) GroundTruthDetection
        (Some BBOX_OBJECT_DETECTION) (Some 4) (Some 9)
      = Inr \<lparr>entity = LabeledGroundTruthDetection, joins = [],
             whereclause = [Ge (ST_Area (ST_Envelope (Column GroundTruthDetection ''boundary''))) 4,
                            Le (ST_Area (ST_Envelope (Column GroundTruthDetection ''boundary''))) 9]\<rparr>
   \<and> filter_object_detections_by_area (select LabeledGroundTruthDetection) GroundTruthDetection
        (Some POLY_OBJECT_DETECTION) (Some 4) (Some 9)
      = Inr \<lparr>entity = LabeledGroundTruthDetection, joins = [],
             whereclause = [Ge (ST_Area (Column GroundTruthDetection ''boundary'')) 4,
                            Le (ST_Area (Column GroundTruthDetection ''boundary'')) 9]\<rparr>
   \<and> filter_instance_segmentations_by_area (select LabeledGroundTruthSegmentation)
        GroundTruthSegmentation (Some POLY_OBJECT_DETECTION) (Some 4) (Some 9)
      = Inr \<lparr>entity = LabeledGroundTruthSegmentation, joins = [],
             whereclause =
               [Ge (ST_Area (ST_ConvexHull (ST_Boundary (ST_Polygon
                      (Column GroundTruthSegmentation ''shape''))))) 4,
                Le (ST_Area (ST_ConvexHull (ST_Boundary (ST_Polygon
                      (Column GroundTruthSegmentation ''shape''))))) 9]\<rparr>
   \<and> filter_instance_segmentations_by_area (select LabeledGroundTruthSegmentation)
        GroundTruthSegmentation None (Some 4) (Some 9)
      = Inr \<lparr>entity = LabeledGroundTruthSegmentation, joins = [],
             whereclause = [Ge (ST_Count (Column GroundTruthSegmentation ''shape'')) 4,
                            Le (ST_Count (Column GroundTruthSegmentation ''shape'')) 9]\<rparr>"
  using task_area_function_mapping
    [where min_area = "Some 4" and max_area = "Some 9"
       and stmt = "select LabeledGroundTruthDetection" and det_table = GroundTruthDetection
       and seg_stmt = "select LabeledGroundTruthSegmentation"
       and seg_table = GroundTruthSegmentation]
  by (simp add: whereclause_add_bounds_both select_def)

text \<open>
  C10. Both object-detection statement builders check their \<open>task\<close> argument first: for
  every value other than the two detection tasks (the absent task included) they raise
  ValueError and build no statement, whatever the bounds, also when both are absent.
\<close>

theorem detection_statement_requires_detection_task:
  assumes "task \<noteq> Some BBOX_OBJECT_DETECTION" and "task \<noteq> Some POLY_OBJECT_DETECTION"
  shows "object_detections_in_dataset_statement dataset_name task min_area max_area
             task_for_area_computation
           = Inl (ValueError (Expected_detection_task task))
       \<and> model_object_detection_preds_statement model_name dataset_name task min_area max_area
             task_for_area_computation
           = Inl (ValueError (Expected_detection_task task))"
  using assms
  by (simp add: object_detections_in_dataset_statement_def
      model_object_detection_preds_statement_def)

theorem detection_statement_requires_detection_task_witness:
  "Some INSTANCE_SEGMENTATION \<noteq> Some BBOX_OBJECT_DETECTION
   \<and> Some INSTANCE_SEGMENTATION \<noteq> Some POLY_OBJECT_DETECTION
   \<and> object_detections_in_dataset_statement ''D1'' (Some INSTANCE_SEGMENTATION) None None None
       = Inl (ValueError (Expected_detection_task (Some INSTANCE_SEGMENTATION)))
   \<and> model_object_detection_preds_statement ''M1'' ''D1'' (Some INSTANCE_SEGMENTATION) None None None
       = Inl (ValueError (Expected_detection_task (Some INSTANCE_SEGMENTATION)))"
  using detection_statement_requires_detection_task
    [where task = "Some INSTANCE_SEGMENTATION" and dataset_name = "''D1''" and min_area = None
       and max_area = None and task_for_area_computation = None and model_name = "''M1''"]
  by simp


text \<open>
  C1 (as stated, refuted). The claim asks for an error from every entity kind when the
  task has no area semantics. The segmentation filter has no failing branch: its final
  \<open>else\<close> takes the pixel count, here for the classification task.
\<close>

theorem segmentation_filter_classification_task_counts_pixels:
  "filter_instance_segmentations_by_area (select LabeledGroundTruthSegmentation)
     GroundTruthSegmentation (Some IMAGE_CLASSIFICATION) (Some 1) None
   = Inr \<lparr>entity = LabeledGroundTruthSegmentation, joins = [],
          whereclause = [Ge (ST_Count (Column GroundTruthSegmentation ''shape'')) 1]\<rparr>"
  by (simp add: filter_instance_segmentations_by_area_def add_bounds_def stmt_where_def
      select_def)

text \<open>
  C1 (amended). With a bound present: the detection filter raises ValueError (the
  spec's \<open>UnsupportedAreaTask\<close>) and adds nothing for every task other than the two
  detection tasks, the absent task included; the segmentation filter raises nothing and
  compares the pixel count when the task is absent or is the segmentation task.
\<close>

theorem area_task_dispatch_outside_detection_tasks:
  assumes "min_area \<noteq> None \<or> max_area \<noteq> None"
  shows "(task \<noteq> Some BBOX_OBJECT_DETECTION \<and> task \<noteq> Some POLY_OBJECT_DETECTION \<longrightarrow>
            filter_object_detections_by_area stmt det_table task min_area max_area
              = Inl (ValueError (Expected_task_for_area_computation task)))
       \<and> filter_instance_segmentations_by_area seg_stmt seg_table None min_area max_area
           = Inr (add_bounds (\<lambda>x. ST_Count x) (Column seg_table ''shape'')
                    min_area max_area seg_stmt)
       \<and> filter_instance_segmentations_by_area seg_stmt seg_table (Some INSTANCE_SEGMENTATION)
             min_area max_area
           = Inr (add_bounds (\<lambda>x. ST_Count x) (Column seg_table ''shape'')
                    min_area max_area seg_stmt)"
  using assms
  by (auto simp: filter_instance_segmentations_by_area_def filter_object_detections_by_area_def)

theorem area_task_dispatch_outside_detection_tasks_witness:
  "filter_object_detections_by_area (select LabeledGroundTruthDetection) GroundTruthDetection
     (Some IMAGE_CLASSIFICATION) (Some 1) None
   = Inl (ValueError (Expected_task_for_area_computation (Some IMAGE_CLASSIFICATION)))
   \<and> filter_instance_segmentations_by_area (select LabeledPredictedSegmentation)
       PredictedSegmentation None (Some 1) None
     = Inr \<lparr>entity = LabeledPredictedSegmentation, joins = [],
            whereclause = [Ge (ST_Count (Column PredictedSegmentation ''shape'')) 1]\<rparr>
   \<and> filter_instance_segmentations_by_area (select LabeledPredictedSegmentation)
       PredictedSegmentation (Some INSTANCE_SEGMENTATION) (Some 1) None
     = Inr \<lparr>entity = LabeledPredictedSegmentation, joins = [],
            whereclause = [Ge (ST_Count (Column PredictedSegmentation ''shape'')) 1]\<rparr>"
  using area_task_dispatch_outside_detection_tasks
    [where task = "Some IMAGE_CLASSIFICATION" and min_area = "Some 1" and max_area = None
       and stmt = "select LabeledGroundTruthDetection" and det_table = GroundTruthDetection
       and seg_stmt = "select LabeledPredictedSegmentation"
       and seg_table = PredictedSegmentation]
  by (simp add: add_bounds_def stmt_where_def select_def)

text \<open>
  C2 (as stated, refuted). With \<open>min_area = 5\<close> and \<open>max_area = 4\<close> the detection filter
  raises nothing: it returns the statement with both comparisons added.
\<close>

theorem inverted_area_range_builds_statement:
  "filter_object_detections_by_area (select LabeledGroundTruthDetection) GroundTruthDetection
     (Some BBOX_OBJECT_DETECTION) (Some 5) (Some 4)
   = Inr \<lparr>entity = LabeledGroundTruthDetection, joins = [],
          whereclause = [Ge (ST_Area (ST_Envelope (Column GroundTruthDetection ''boundary''))) 5,
                         Le (ST_Area (ST_Envelope (Column GroundTruthDetection ''boundary''))) 4]\<rparr>"
  by (simp add: filter_object_detections_by_area_def add_bounds_def stmt_where_def select_def)

text \<open>
  C2 (amended). No filter compares the two bounds. With both present, whatever their
  order (so also when \<open>min_area > max_area\<close>): for the two detection tasks, the
  segmentation task and the absent task the segmentation filter returns the statement
  with \<open>area \<ge> min_area\<close> and \<open>area \<le> max_area\<close> appended, and the two segmentation
  statement builders succeed; for the two detection tasks the detection filter does the
  same, and the two detection statement builders succeed when their \<open>task\<close> is a
  detection task too; for any other task the detection filter raises the
  unsupported-task ValueError.
\<close>

theorem area_bounds_are_never_compared:
  "(task \<in> {None, Some INSTANCE_SEGMENTATION, Some BBOX_OBJECT_DETECTION,
             Some POLY_OBJECT_DETECTION} \<longrightarrow>
      (\<exists>area. filter_instance_segmentations_by_area seg_stmt seg_table task (Some lo) (Some hi)
         = Inr (seg_stmt\<lparr>whereclause := whereclause seg_stmt @ [Ge area lo, Le area hi]\<rparr>))
      \<and> \<not> isl (instance_segmentations_in_dataset_statement dataset_name (Some lo) (Some hi) task)
      \<and> \<not> isl (model_instance_segmentation_preds_statement model_name dataset_name
                  (Some lo) (Some hi) task))
   \<and> (task = Some BBOX_OBJECT_DETECTION \<or> task = Some POLY_OBJECT_DETECTION \<longrightarrow>
        (\<exists>area. filter_object_detections_by_area stmt det_table task (Some lo) (Some hi)
           = Inr (stmt\<lparr>whereclause := whereclause stmt @ [Ge area lo, Le area hi]\<rparr>)))
   \<and> (task \<noteq> Some BBOX_OBJECT_DETECTION \<and> task \<noteq> Some POLY_OBJECT_DETECTION \<longrightarrow>
        filter_object_detections_by_area stmt det_table task (Some lo) (Some hi)
          = Inl (ValueError (Expected_task_for_area_computation task)))
   \<and> ((task = Some BBOX_OBJECT_DETECTION \<or> task = Some POLY_OBJECT_DETECTION)
        \<and> (det_task = Some BBOX_OBJECT_DETECTION \<or> det_task = Some POLY_OBJECT_DETECTION) \<longrightarrow>
        \<not> isl (object_detections_in_dataset_statement dataset_name det_task (Some lo) (Some hi) task)
        \<and> \<not> isl (model_object_detection_preds_statement model_name dataset_name det_task
                    (Some lo) (Some hi) task))"
  by (auto simp: filter_instance_segmentations_by_area_def filter_object_detections_by_area_def
      instance_segmentations_in_dataset_statement_def
      model_instance_segmentation_preds_statement_def
      object_detections_in_dataset_statement_def model_object_detection_preds_statement_def
      whereclause_add_bounds_both)

theorem area_bounds_are_never_compared_witness:
  "(\<exists>area. filter_instance_segmentations_by_area (select LabeledGroundTruthSegmentation)
        GroundTruthSegmentation None (Some 5) (Some 4)
      = Inr \<lparr>entity = LabeledGroundTruthSegmentation, joins = [],
             whereclause = [Ge area 5, Le area 4]\<rparr>)
   \<and> (\<exists>area. filter_object_detections_by_area (select LabeledPredictedDetection)
         PredictedDetection (Some POLY_OBJECT_DETECTION) (Some 5) (Some 4)
       = Inr \<lparr>entity = LabeledPredictedDetection, joins = [],
              whereclause = [Ge area 5, Le area 4]\<rparr>)
   \<and> filter_object_detections_by_area (select LabeledPredictedDetection)
         PredictedDetection None (Some 5) (Some 4)
       = Inl (ValueError (Expected_task_for_area_computation None))
   \<and> \<not> isl (instance_segmentations_in_dataset_statement ''D1'' (Some 5) (Some 4) None)
   \<and> \<not> isl (object_detections_in_dataset_statement ''D1'' (Some BBOX_OBJECT_DETECTION)
               (Some 5) (Some 4) (Some POLY_OBJECT_DETECTION))
   \<and> \<not> isl (model_object_detection_preds_statement ''M1'' ''D1'' (Some BBOX_OBJECT_DETECTION)
               (Some 5) (Some 4) (Some POLY_OBJECT_DETECTION))"
  using
    area_bounds_are_never_compared
      [where task = "Some POLY_OBJECT_DETECTION" and lo = 5 and hi = 4
         and stmt = "select LabeledPredictedDetection" and det_table = PredictedDetection
         and det_task = "Some BBOX_OBJECT_DETECTION" and dataset_name = "''D1''"
         and model_name = "''M1''"]
    area_bounds_are_never_compared
      [where task = None and lo = 5 and hi = 4
         and stmt = "select LabeledPredictedDetection" and det_table = PredictedDetection
         and seg_stmt = "select LabeledGroundTruthSegmentation"
         and seg_table = GroundTruthSegmentation and dataset_name = "''D1''"]
  by (simp add: select_def)

section \<open>Label identities of an image\<close>

lemma fold_insert_image: "fold (\<lambda>x s. insert (f x) s) xs s = f ` set xs \<union> s"
  by (induction xs arbitrary: s) auto

lemma fold_fold_insert:
  "fold (\<lambda>r s. fold (\<lambda>x s. insert (f x) s) (g r) s) rs s
     = (\<Union>r\<in>set rs. f ` set (g r)) \<union> s"
  by (induction rs arbitrary: s) (auto simp: fold_insert_image)

lemma unique_label_ids_unions:
  "get_unique_label_ids_in_image img
     = (\<Union>det\<in>set (ground_truth_detections img).
          (\<lambda>r. label_id (label r)) ` set (labeled_ground_truth_detections det))
       \<union> (\<lambda>r. label_id (label r)) ` set (ground_truth_classifications img)
       \<union> (\<Union>seg\<in>set (ground_truth_segmentations img).
            (\<lambda>r. label_id (label r)) ` set (labeled_ground_truth_segmentations seg))"
  unfolding get_unique_label_ids_in_image_def Let_def
  by (simp add: fold_insert_image fold_fold_insert Un_ac)

lemma unique_label_ids_carried:
  "get_unique_label_ids_in_image img = label_id ` set (labels_carried img)"
  unfolding unique_label_ids_unions labels_carried_def
  by (simp add: image_Un image_UN image_image Un_ac)

lemma card_image_cong_inj:
  assumes "\<forall>x\<in>A. \<forall>y\<in>A. (f x = f y) = (g x = g y)"
  shows "card (f ` A) = card (g ` A)"
proof -
  let ?P = "(\<lambda>x. (f x, g x)) ` A"
  have "inj_on fst ?P" using assms by (auto simp: inj_on_def)
  then have 1: "card (fst ` ?P) = card ?P" by (rule card_image)
  have "inj_on snd ?P" using assms by (auto simp: inj_on_def)
  then have 2: "card (snd ` ?P) = card ?P" by (rule card_image)
  have "fst ` ?P = f ` A" "snd ` ?P = g ` A" by (simp_all add: image_image)
  with 1 2 show ?thesis by simp
qed

text \<open>
  C9. The result is exactly the union, over the image's detections, classifications and
  segmentations, of the identities of the labels they carry. It is a set, so a label
  carried by several rows counts once: there are at most as many identities as carrying
  rows, and where the identity of a label stands for its (key, value) pair (equal
  identity exactly when key and value are equal, among the labels of the image) there
  are exactly as many identities as distinct (key, value) pairs.
\<close>

theorem unique_label_ids_is_union_by_identity:
  "get_unique_label_ids_in_image img
     = (\<Union>det\<in>set (ground_truth_detections img).
          (\<lambda>r. label_id (label r)) ` set (labeled_ground_truth_detections det))
       \<union> (\<lambda>r. label_id (label r)) ` set (ground_truth_classifications img)
       \<union> (\<Union>seg\<in>set (ground_truth_segmentations img).
            (\<lambda>r. label_id (label r)) ` set (labeled_ground_truth_segmentations seg))
   \<and> card (get_unique_label_ids_in_image img) \<le> length (labels_carried img)
   \<and> ((\<forall>l\<in>set (labels_carried img). \<forall>l'\<in>set (labels_carried img).
          (label_id l = label_id l')
            = (label_key l = label_key l' \<and> label_value l = label_value l'))
        \<longrightarrow> card (get_unique_label_ids_in_image img)
              = card ((\<lambda>l. (label_key l, label_value l)) ` set (labels_carried img)))"
proof (intro conjI impI)
  show "get_unique_label_ids_in_image img
     = (\<Union>det\<in>set (ground_truth_detections img).
          (\<lambda>r. label_id (label r)) ` set (labeled_ground_truth_detections det))
       \<union> (\<lambda>r. label_id (label r)) ` set (ground_truth_classifications img)
       \<union> (\<Union>seg\<in>set (ground_truth_segmentations img).
            (\<lambda>r. label_id (label r)) ` set (labeled_ground_truth_segmentations seg))"
    by (rule unique_label_ids_unions)
next
  have "card (label_id ` set (labels_carried img)) \<le> card (set (labels_carried img))"
    by (rule card_image_le) simp
  also have "\<dots> \<le> length (labels_carried img)"
    by (rule card_length)
  finally show "card (get_unique_label_ids_in_image img) \<le> length (labels_carried img)"
    by (simp add: unique_label_ids_carried)
next
  assume "\<forall>l\<in>set (labels_carried img). \<forall>l'\<in>set (labels_carried img).
            (label_id l = label_id l')
              = (label_key l = label_key l' \<and> label_value l = label_value l')"
  then have "\<forall>l\<in>set (labels_carried img). \<forall>l'\<in>set (labels_carried img).
            (label_id l = label_id l')
              = ((label_key l, label_value l) = (label_key l', label_value l'))"
    by simp
  then have "card (label_id ` set (labels_carried img))
               = card ((\<lambda>l. (label_key l, label_value l)) ` set (labels_carried img))"
    by (rule card_image_cong_inj)
  then show "card (get_unique_label_ids_in_image img)
               = card ((\<lambda>l. (label_key l, label_value l)) ` set (labels_carried img))"
    by (simp add: unique_label_ids_carried)
qed

text \<open>
  The spec's example: two detections that share the label (car, present) and one
  classification with another label give two identities, not three.
\<close>

theorem unique_label_ids_is_union_by_identity_witness:
  "get_unique_label_ids_in_image
     \<lparr>ground_truth_detections =
        [\<lparr>labeled_ground_truth_detections =
            [\<lparr>label = \<lparr>label_id = 1, label_key = ''car'', label_value = ''present''\<rparr>\<rparr>]\<rparr>,
         \<lparr>labeled_ground_truth_detections =
            [\<lparr>label = \<lparr>label_id = 1, label_key = ''car'', label_value = ''present''\<rparr>\<rparr>]\<rparr>],
      ground_truth_classifications =
        [\<lparr>label = \<lparr>label_id = 2, label_key = ''weather'', label_value = ''rain''\<rparr>\<rparr>],
      ground_truth_segmentations = []\<rparr> = {1, 2}
   \<and> card (get_unique_label_ids_in_image
     \<lparr>ground_truth_detections =
        [\<lparr>labeled_ground_truth_detections =
            [\<lparr>label = \<lparr>label_id = 1, label_key = ''car'', label_value = ''present''\<rparr>\<rparr>]\<rparr>,
         \<lparr>labeled_ground_truth_detections =
            [\<lparr>label = \<lparr>label_id = 1, label_key = ''car'', label_value = ''present''\<rparr>\<rparr>]\<rparr>],
      ground_truth_classifications =
        [\<lparr>label = \<lparr>label_id = 2, label_key = ''weather'', label_value = ''rain''\<rparr>\<rparr>],
      ground_truth_segmentations = []\<rparr>) = 2"
  using unique_label_ids_is_union_by_identity
    [of "\<lparr>ground_truth_detections =
        [\<lparr>labeled_ground_truth_detections =
            [\<lparr>label = \<lparr>label_id = 1, label_key = ''car'', label_value = ''present''\<rparr>\<rparr>]\<rparr>,
         \<lparr>labeled_ground_truth_detections =
            [\<lparr>label = \<lparr>label_id = 1, label_key = ''car'', label_value = ''present''\<rparr>\<rparr>]\<rparr>],
      ground_truth_classifications =
        [\<lparr>label = \<lparr>label_id = 2, label_key = ''weather'', label_value = ''rain''\<rparr>\<rparr>],
      ground_truth_segmentations = []\<rparr>"]
  by (simp add: labels_carried_def insert_commute)


section \<open>Reconstruction of raster masks\<close>

subsection \<open>Conversion to two levels keeps a two-level image\<close>

lemma replicate_zero_update: "(replicate n (0::int))[x := 0] = replicate n 0"
proof (cases "x < n")
  case True
  then have "replicate n (0::int) ! x = 0" by simp
  then show ?thesis by (metis list_update_id)
next
  case False
  then show ?thesis by (intro list_update_beyond) simp
qed

lemma sdiv_zero_16: "(0::int) sdiv 16 = 0"
  by (simp add: signed_divide_int_def)

lemma tobilevel_row_bilevel:
  assumes "list_all (\<lambda>p. p = 0 \<or> p = 255) ps" and "x + length ps < n"
  shows "tobilevel_row (replicate n 0) x 0 0 0 ps = (ps, replicate n 0)"
  using assms
proof (induction ps arbitrary: x)
  case Nil
  then show ?case by (simp add: replicate_zero_update)
next
  case (Cons p ps)
  from Cons.prems have p: "p = 0 \<or> p = 255" and rest: "list_all (\<lambda>p. p = 0 \<or> p = 255) ps"
    and x: "Suc x + length ps < n" by simp_all
  have e: "replicate n (0::int) ! Suc x = 0" using x by simp
  have ih: "tobilevel_row (replicate n 0) (Suc x) 0 0 0 ps = (ps, replicate n 0)"
    using Cons.IH [OF rest, of "Suc x"] x by simp
  from p show ?case
  proof
    assume "p = 0"
    then show ?thesis
      by (simp add: e sdiv_zero_16 CLIP8_def replicate_zero_update ih del: replicate.simps)
  next
    assume "p = 255"
    then show ?thesis
      by (simp add: e sdiv_zero_16 CLIP8_def replicate_zero_update ih del: replicate.simps)
  qed
qed

lemma tobilevel_rows_bilevel:
  assumes "list_all (\<lambda>row. length row < n \<and> list_all (\<lambda>p. p = 0 \<or> p = 255) row) rows"
  shows "tobilevel_rows (replicate n 0) rows = rows"
  using assms
proof (induction rows)
  case Nil
  then show ?case by simp
next
  case (Cons row rows)
  then have "tobilevel_row (replicate n 0) 0 0 0 0 row = (row, replicate n 0)"
    by (intro tobilevel_row_bilevel) simp_all
  with Cons show ?case by simp
qed

lemma convert_1_bilevel:
  assumes "wf_image im"
    and "list_all (list_all (\<lambda>p. p = 0 \<or> p = 255)) (image8 im)"
  shows "convert_1 im = im\<lparr>mode := ''1''\<rparr>"
proof -
  have "list_all (\<lambda>row. length row < xsize im + 1 \<and> list_all (\<lambda>p. p = 0 \<or> p = 255) row) (image8 im)"
    using assms by (auto simp: wf_image_def list_all_iff)
  then have "tobilevel_rows (replicate (xsize im + 1) 0) (image8 im) = image8 im"
    by (rule tobilevel_rows_bilevel)
  then show ?thesis by (simp add: convert_1_def)
qed


subsection \<open>The pixels after a paste\<close>

lemma length_memcpy:
  "dx + n \<le> length dst \<Longrightarrow> sx + n \<le> length src \<Longrightarrow> length (memcpy dst dx src sx n) = length dst"
  by (simp add: memcpy_def)

lemma nth_memcpy:
  assumes a: "dx + n \<le> length dst" and b: "sx + n \<le> length src" and c: "x < length dst"
  shows "memcpy dst dx src sx n ! x
           = (if dx \<le> x \<and> x < dx + n then src ! (x - dx + sx) else dst ! x)"
proof -
  have m: "min (length dst) dx = dx" using a by simp
  have m2: "min (length src - sx) n = n" using b by simp
  show ?thesis
  proof (cases "x < dx")
    case True
    then show ?thesis by (simp add: memcpy_def nth_append m)
  next
    case False
    note nlt = this
    show ?thesis
    proof (cases "x < dx + n")
      case True
      with nlt have "x - dx < n" by simp
      with nlt True b show ?thesis
        by (simp add: memcpy_def nth_append m m2 add.commute)
    next
      case False
      with nlt have d: "\<not> x - dx < n" and e: "dx + n + (x - dx - n) = x" by simp_all
      have "memcpy dst dx src sx n ! x = drop (dx + n) dst ! (x - dx - n)"
        using nlt d by (simp add: memcpy_def nth_append m m2)
      also have "\<dots> = dst ! x"
        using a e by simp
      finally show ?thesis using False by simp
    qed
  qed
qed

lemma paste_region_Suc:
  "paste_region out inp dx dy sx sy xs (Suc ys) =
     (paste_region out inp dx dy sx sy xs ys)
       [ys + dy := memcpy (paste_region out inp dx dy sx sy xs ys ! (ys + dy)) dx
                     (inp ! (ys + sy)) sx xs]"
  by (simp add: paste_region_def)

lemma paste_region_0: "paste_region out inp dx dy sx sy xs 0 = out"
  by (simp add: paste_region_def)

lemma length_paste_region: "length (paste_region out inp dx dy sx sy xs ys) = length out"
  by (induction ys) (simp_all add: paste_region_0 paste_region_Suc)

lemma nth_paste_region:
  "dy + ys \<le> length out \<Longrightarrow> y < length out \<Longrightarrow>
   paste_region out inp dx dy sx sy xs ys ! y =
     (if dy \<le> y \<and> y < dy + ys then memcpy (out ! y) dx (inp ! (y - dy + sy)) sx xs
      else out ! y)"
proof (induction ys arbitrary: y)
  case 0
  then show ?case by (auto simp: paste_region_0)
next
  case (Suc ys)
  let ?P = "paste_region out inp dx dy sx sy xs ys"
  have len: "length ?P = length out" by (rule length_paste_region)
  have a: "?P ! (ys + dy) = out ! (ys + dy)"
    using Suc.IH [of "ys + dy"] Suc.prems by simp
  have b: "?P ! y = (if dy \<le> y \<and> y < dy + ys
                     then memcpy (out ! y) dx (inp ! (y - dy + sy)) sx xs else out ! y)"
    using Suc.IH [of y] Suc.prems by simp
  show ?case
  proof (cases "y = ys + dy")
    case True
    then show ?thesis using a Suc.prems len by (simp add: paste_region_Suc)
  next
    case False
    then show ?thesis using b Suc.prems len by (auto simp: paste_region_Suc)
  qed
qed

lemma c_int_id: "in_c_int v \<Longrightarrow> c_int v = v"
  by (simp add: in_c_int_def c_int_def)

lemma clip_axis_eq:
  assumes d0: "in_c_int d0" and d1: "in_c_int d1"
    and n: "0 \<le> d1 - d0" "d1 - d0 < 2 ^ 31" and w: "0 \<le> W" "W < 2 ^ 31"
  shows "clip_axis d0 (d1 - d0) W = (min d1 W - max d0 0, c_int (max (- d0) 0), max d0 0)"
proof (cases "d0 < 0")
  case True
  have a: "c_int (d1 - d0 + d0) = d1" using d1 by (simp add: c_int_id)
  have b: "c_int W = W" using w by (simp add: c_int_id in_c_int_def)
  show ?thesis using True a b by (simp add: clip_axis_def min_def max_def)
next
  case False
  have a: "c_int (d0 + (d1 - d0)) = d1" using d1 by (simp add: c_int_id)
  have "in_c_int (W - d0)" using False d0 w by (simp add: in_c_int_def)
  then have b: "c_int (W - d0) = W - d0" by (rule c_int_id)
  show ?thesis using False a b by (simp add: clip_axis_def min_def max_def c_int_def)
qed

lemma clip_axis_source:
  assumes "in_c_int d0" and "d1 - d0 < 2 ^ 31" and "max d0 0 < min d1 W"
  shows "c_int (max (- d0) 0) = max (- d0) 0"
proof -
  have "in_c_int (max (- d0) 0)"
    using assms by (auto simp: in_c_int_def max_def min_def split: if_splits)
  then show ?thesis by (rule c_int_id)
qed

lemma paste_eq:
  assumes r: "in_c_int x0" "in_c_int y0" "in_c_int x1" "in_c_int y1"
    and sx: "x1 - x0 = int (xsize imIn)" and sy: "y1 - y0 = int (ysize imIn)"
    and si: "int (xsize imIn) < 2 ^ 31" "int (ysize imIn) < 2 ^ 31"
    and so: "int (xsize imOut) < 2 ^ 31" "int (ysize imOut) < 2 ^ 31"
  shows "paste imOut imIn (x0, y0, x1, y1) =
     (if min x1 (int (xsize imOut)) \<le> max x0 0 \<or> min y1 (int (ysize imOut)) \<le> max y0 0
        then Inr imOut
      else Inr (imOut\<lparr>image8 :=
             paste_region (image8 imOut) (image8 imIn)
               (nat (max x0 0)) (nat (max y0 0)) (nat (max (- x0) 0)) (nat (max (- y0) 0))
               (nat (min x1 (int (xsize imOut)) - max x0 0))
               (nat (min y1 (int (ysize imOut)) - max y0 0))\<rparr>))"
proof -
  have dx: "c_int (x1 - x0) = int (xsize imIn)" and dy: "c_int (y1 - y0) = int (ysize imIn)"
    using sx sy si by (simp_all add: c_int_id in_c_int_def)
  have cx: "clip_axis x0 (int (xsize imIn)) (int (xsize imOut))
              = (min x1 (int (xsize imOut)) - max x0 0, c_int (max (- x0) 0), max x0 0)"
    using clip_axis_eq [OF r(1) r(3), of "int (xsize imOut)"] sx si so by simp
  have cy: "clip_axis y0 (int (ysize imIn)) (int (ysize imOut))
              = (min y1 (int (ysize imOut)) - max y0 0, c_int (max (- y0) 0), max y0 0)"
    using clip_axis_eq [OF r(2) r(4), of "int (ysize imOut)"] sy si so by simp
  show ?thesis
  proof (cases "min x1 (int (xsize imOut)) \<le> max x0 0
                \<or> min y1 (int (ysize imOut)) \<le> max y0 0")
    case True
    then show ?thesis using r dx dy cx cy by (auto simp: paste_def)
  next
    case False
    then have px: "max x0 0 < min x1 (int (xsize imOut))"
      and py: "max y0 0 < min y1 (int (ysize imOut))"
      by linarith+
    have "x1 - x0 < 2 ^ 31" "y1 - y0 < 2 ^ 31" using sx sy si by simp_all
    then have "c_int (max (- x0) 0) = max (- x0) 0" "c_int (max (- y0) 0) = max (- y0) 0"
      using r px py by (auto intro: clip_axis_source)
    then show ?thesis using False r dx dy cx cy by (simp add: paste_def)
  qed
qed

lemma wf_image_nth:
  "wf_image im = (length (image8 im) = ysize im
                  \<and> (\<forall>y<ysize im. length (image8 im ! y) = xsize im))"
  by (auto simp: wf_image_def list_all_length)

lemma paste_pixels:
  assumes wo: "wf_image imOut" and wi: "wf_image imIn"
    and sx: "x1 - x0 = int (xsize imIn)" and sy: "y1 - y0 = int (ysize imIn)"
    and r: "in_c_int x0" "in_c_int y0" "in_c_int x1" "in_c_int y1"
    and si: "int (xsize imIn) < 2 ^ 31" "int (ysize imIn) < 2 ^ 31"
    and so: "int (xsize imOut) < 2 ^ 31" "int (ysize imOut) < 2 ^ 31"
  shows "\<exists>ret. paste imOut imIn (x0, y0, x1, y1) = Inr ret
           \<and> mode ret = mode imOut \<and> xsize ret = xsize imOut \<and> ysize ret = ysize imOut
           \<and> wf_image ret
           \<and> (\<forall>x<xsize imOut. \<forall>y<ysize imOut.
                 getpixel ret x y
                   = (if x0 \<le> int x \<and> int x < x1 \<and> y0 \<le> int y \<and> int y < y1
                      then getpixel imIn (nat (int x - x0)) (nat (int y - y0))
                      else getpixel imOut x y))"
proof (cases "min x1 (int (xsize imOut)) \<le> max x0 0 \<or> min y1 (int (ysize imOut)) \<le> max y0 0")
  case True
  then have "paste imOut imIn (x0, y0, x1, y1) = Inr imOut"
    unfolding paste_eq [OF r sx sy si so] by simp
  moreover have "\<forall>x<xsize imOut. \<forall>y<ysize imOut.
      \<not> (x0 \<le> int x \<and> int x < x1 \<and> y0 \<le> int y \<and> int y < y1)"
    using True by auto
  ultimately show ?thesis using wo by auto
next
  case False
  define W where "W = xsize imOut"
  define H where "H = ysize imOut"
  define dx where "dx = nat (max x0 0)"
  define dy where "dy = nat (max y0 0)"
  define ox where "ox = nat (max (- x0) 0)"
  define oy where "oy = nat (max (- y0) 0)"
  define nx where "nx = nat (min x1 (int W) - max x0 0)"
  define ny where "ny = nat (min y1 (int H) - max y0 0)"
  define out where "out = image8 imOut"
  define inp where "inp = image8 imIn"
  define res where "res = paste_region out inp dx dy ox oy nx ny"
  have p: "paste imOut imIn (x0, y0, x1, y1) = Inr (imOut\<lparr>image8 := res\<rparr>)"
    unfolding paste_eq [OF r sx sy si so] using False
    by (simp add: res_def out_def inp_def dx_def dy_def ox_def oy_def nx_def ny_def
        W_def H_def)
  have lo: "length out = H" and ro: "\<And>y. y < H \<Longrightarrow> length (out ! y) = W"
    using wo by (simp_all add: wf_image_nth out_def H_def W_def)
  have li: "length inp = ysize imIn" and ri: "\<And>y. y < ysize imIn \<Longrightarrow> length (inp ! y) = xsize imIn"
    using wi by (simp_all add: wf_image_nth inp_def)
  have bx: "dx + nx \<le> W" and sxb: "ox + nx \<le> xsize imIn"
    using False sx by (auto simp: dx_def nx_def ox_def W_def min_def max_def split: if_splits)
  have by': "dy + ny \<le> H" and syb: "oy + ny \<le> ysize imIn"
    using False sy by (auto simp: dy_def ny_def oy_def H_def min_def max_def split: if_splits)
  have row: "res ! y = (if dy \<le> y \<and> y < dy + ny then memcpy (out ! y) dx (inp ! (y - dy + oy)) ox nx
                        else out ! y)" if "y < H" for y
    unfolding res_def using by' that lo by (intro nth_paste_region) simp_all
  have row_in: "res ! y = memcpy (out ! y) dx (inp ! (y - dy + oy)) ox nx"
    if "y < H" "dy \<le> y" "y < dy + ny" for y
    using row [OF that(1)] that by simp
  have row_out: "res ! y = out ! y" if "y < H" "\<not> (dy \<le> y \<and> y < dy + ny)" for y
    using row [OF that(1)] that by simp
  have lres: "length res = H"
    by (simp add: res_def length_paste_region lo)
  have rres: "length (res ! y) = W" if y: "y < H" for y
  proof (cases "dy \<le> y \<and> y < dy + ny")
    case True
    then have "y - dy + oy < ysize imIn" using syb by linarith
    then have "ox + nx \<le> length (inp ! (y - dy + oy))" using ri sxb by simp
    moreover have "dx + nx \<le> length (out ! y)" using ro y bx by simp
    ultimately have "length (memcpy (out ! y) dx (inp ! (y - dy + oy)) ox nx) = length (out ! y)"
      by (intro length_memcpy)
    then show ?thesis using True row_in [OF y] ro [OF y] by simp
  next
    case False
    then show ?thesis using row_out [OF y] ro [OF y] by simp
  qed
  have wres: "wf_image (imOut\<lparr>image8 := res\<rparr>)"
    using lres rres by (simp add: wf_image_nth H_def W_def)
  have px: "getpixel (imOut\<lparr>image8 := res\<rparr>) x y
             = (if x0 \<le> int x \<and> int x < x1 \<and> y0 \<le> int y \<and> int y < y1
                then getpixel imIn (nat (int x - x0)) (nat (int y - y0))
                else getpixel imOut x y)" if x: "x < W" and y: "y < H" for x y
  proof (cases "dy \<le> y \<and> y < dy + ny")
    case rowin: True
    then have iy: "y - dy + oy < ysize imIn" using syb by linarith
    have l1: "ox + nx \<le> length (inp ! (y - dy + oy))" using ri [OF iy] sxb by simp
    have l2: "dx + nx \<le> length (out ! y)" using ro y bx by simp
    have l3: "x < length (out ! y)" using ro y x by simp
    have r: "res ! y = memcpy (out ! y) dx (inp ! (y - dy + oy)) ox nx"
      using rowin by (intro row_in [OF y]) simp_all
    have yin: "y0 \<le> int y \<and> int y < y1"
      using rowin False y by (auto simp: dy_def ny_def H_def min_def max_def split: if_splits)
    have yidx: "y - dy + oy = nat (int y - y0)"
      using rowin by (auto simp: dy_def oy_def max_def split: if_splits)
    show ?thesis
    proof (cases "dx \<le> x \<and> x < dx + nx")
      case colin: True
      have xin: "x0 \<le> int x \<and> int x < x1"
        using colin False x by (auto simp: dx_def nx_def W_def min_def max_def split: if_splits)
      have xidx: "x - dx + ox = nat (int x - x0)"
        using colin by (auto simp: dx_def ox_def max_def split: if_splits)
      have "res ! y ! x = inp ! (y - dy + oy) ! (x - dx + ox)"
        unfolding r using colin nth_memcpy [OF l2 l1 l3] by simp
      then show ?thesis
        using xin yin by (simp add: getpixel_def xidx yidx inp_def)
    next
      case colout: False
      have xout: "\<not> (x0 \<le> int x \<and> int x < x1)"
        using colout False x by (auto simp: dx_def nx_def W_def min_def max_def split: if_splits)
      have "res ! y ! x = out ! y ! x"
        unfolding r using colout nth_memcpy [OF l2 l1 l3] by auto
      then show ?thesis
        using xout by (auto simp: getpixel_def out_def)
    qed
  next
    case rowout: False
    have yout: "\<not> (y0 \<le> int y \<and> int y < y1)"
      using rowout False y by (auto simp: dy_def ny_def H_def min_def max_def split: if_splits)
    have "res ! y = out ! y" using rowout by (intro row_out [OF y])
    then show ?thesis using yout by (auto simp: getpixel_def out_def)
  qed
  show ?thesis
    using p wres px by (simp add: W_def H_def)
qed

subsection \<open>The pixels of the full mask\<close>

lemma Image_new_ok:
  assumes "0 \<le> w" and "w \<le> 536870910" and "0 \<le> h" and "h < 2 ^ 31"
  shows "Image_new (w, h) md
           = Inr \<lparr>mode = md, xsize = nat w, ysize = nat h,
                  image8 = replicate (nat h) (replicate (nat w) 0)\<rparr>"
  using assms by (simp add: Image_new_def in_c_int_def)

lemma wf_image_blank:
  "wf_image \<lparr>mode = md, xsize = w, ysize = h, image8 = replicate h (replicate w 0)\<rparr>"
  by (simp add: wf_image_def list_all_length)

lemma getpixel_blank:
  "x < w \<Longrightarrow> y < h \<Longrightarrow>
   getpixel \<lparr>mode = md, xsize = w, ysize = h, image8 = replicate h (replicate w 0)\<rparr> x y = 0"
  by (simp add: getpixel_def)

lemma binarize_eq:
  assumes "wf_image im"
  shows "convert_1 (point (\<lambda>x. if x = 1 then 255 else 0) im)
           = im\<lparr>mode := ''1'', image8 := map (map (\<lambda>x. if x = 1 then 255 else 0)) (image8 im)\<rparr>"
proof -
  let ?p = "point (\<lambda>x. if x = 1 then 255 else 0) im"
  have "wf_image ?p"
    using assms by (simp add: wf_image_def point_def list_all_length)
  moreover have "list_all (list_all (\<lambda>p. p = 0 \<or> p = 255)) (image8 ?p)"
    by (simp add: point_def list_all_length)
  ultimately have "convert_1 ?p = ?p\<lparr>mode := ''1''\<rparr>"
    by (rule convert_1_bilevel)
  then show ?thesis by (simp add: point_def)
qed

lemma binarize_pixels:
  assumes "wf_image im" and "x < xsize im" and "y < ysize im"
  shows "getpixel (convert_1 (point (\<lambda>x. if x = 1 then 255 else 0) im)) x y
           = (if getpixel im x y = 1 then 255 else 0)"
  using assms by (simp add: binarize_eq getpixel_def wf_image_nth)

lemma binarize_wf:
  assumes "wf_image im"
  shows "wf_image (convert_1 (point (\<lambda>x. if x = 1 then 255 else 0) im))"
  using assms by (simp add: binarize_eq wf_image_def list_all_length)

lemma fold_min_Min: "fold min xs (x::int) = Min (set (x # xs))"
  by (rule Min.set_eq_fold [symmetric])

lemma fold_max_Max: "fold max xs (x::int) = Max (set (x # xs))"
  by (rule Max.set_eq_fold [symmetric])

lemma py_min_Min: "xs \<noteq> [] \<Longrightarrow> py_min xs = Min (set xs)"
  by (cases xs) (simp_all add: py_min_def fold_min_Min del: set_simps)

lemma py_max_Max: "xs \<noteq> [] \<Longrightarrow> py_max xs = Max (set xs)"
  by (cases xs) (simp_all add: py_max_def fold_max_Max del: set_simps)

text \<open>
  The bounding box of an envelope of one ring that is not empty: the least and the
  greatest coordinate of its points, per axis.
\<close>

lemma bounding_box_of_ring:
  assumes "envelope_coordinates db raster = [ring]" and "ring \<noteq> []"
  shows "get_bounding_box_of_raster db raster
           = Inr (Min (fst ` set ring), Min (snd ` set ring),
                  Max (fst ` set ring), Max (snd ` set ring))"
  using assms
  by (simp add: get_bounding_box_of_raster_def Let_def py_min_Min py_max_Max)

lemma ring_extremes_in_c_int:
  assumes "ring \<noteq> []" and "list_all (\<lambda>(x, y). in_c_int x \<and> in_c_int y) ring"
  shows "in_c_int (Min (fst ` set ring))" and "in_c_int (Min (snd ` set ring))"
    and "in_c_int (Max (fst ` set ring))" and "in_c_int (Max (snd ` set ring))"
proof -
  have f: "finite (fst ` set ring)" "fst ` set ring \<noteq> {}"
    and s: "finite (snd ` set ring)" "snd ` set ring \<noteq> {}"
    using assms(1) by simp_all
  have a: "\<forall>v\<in>fst ` set ring. in_c_int v" and b: "\<forall>v\<in>snd ` set ring. in_c_int v"
    using assms(2) by (auto simp: list_all_iff)
  show "in_c_int (Min (fst ` set ring))" using a Min_in [OF f] by blast
  show "in_c_int (Max (fst ` set ring))" using a Max_in [OF f] by blast
  show "in_c_int (Min (snd ` set ring))" using b Min_in [OF s] by blast
  show "in_c_int (Max (snd ` set ring))" using b Max_in [OF s] by blast
qed

lemma raster_full_mask_pixels:
  assumes bb: "get_bounding_box_of_raster db raster = Inr (x0, y0, x1, y1)"
    and md: "mode (png_image db raster) = ''L''"
    and wf: "wf_image (png_image db raster)"
    and sx: "x1 - x0 = int (xsize (png_image db raster))"
    and sy: "y1 - y0 = int (ysize (png_image db raster))"
    and r: "in_c_int x0" "in_c_int y0" "in_c_int x1" "in_c_int y1"
    and si: "int (xsize (png_image db raster)) < 2 ^ 31"
            "int (ysize (png_image db raster)) < 2 ^ 31"
    and w: "0 \<le> width img" "width img \<le> 536870910"
    and h: "0 \<le> height img" "height img < 2 ^ 31"
  shows "\<exists>m. raster_full_mask db raster img = Inr m
           \<and> mode m = ''1'' \<and> xsize m = nat (width img) \<and> ysize m = nat (height img)
           \<and> wf_image m
           \<and> (\<forall>x<nat (width img). \<forall>y<nat (height img).
                 getpixel m x y
                   = (if x0 \<le> int x \<and> int x < x1 \<and> y0 \<le> int y \<and> int y < y1
                         \<and> getpixel (png_image db raster) (nat (int x - x0)) (nat (int y - y0)) = 1
                      then 255 else 0))"
proof -
  let ?new = "\<lparr>mode = ''L'', xsize = nat (width img), ysize = nat (height img),
                image8 = replicate (nat (height img)) (replicate (nat (width img)) 0)\<rparr>"
  have new: "Image_new (width img, height img) (mode (png_image db raster)) = Inr ?new"
    using w h md by (simp add: Image_new_ok)
  have wfn: "wf_image ?new" by (rule wf_image_blank)
  have so: "int (xsize ?new) < 2 ^ 31" "int (ysize ?new) < 2 ^ 31"
    using w h by simp_all
  from paste_pixels [OF wfn wf sx sy r si so]
  obtain ret where p: "paste ?new (png_image db raster) (x0, y0, x1, y1) = Inr ret"
    and sz: "xsize ret = nat (width img)" "ysize ret = nat (height img)"
    and wfr: "wf_image ret"
    and px: "\<forall>x<nat (width img). \<forall>y<nat (height img).
               getpixel ret x y
                 = (if x0 \<le> int x \<and> int x < x1 \<and> y0 \<le> int y \<and> int y < y1
                    then getpixel (png_image db raster) (nat (int x - x0)) (nat (int y - y0))
                    else getpixel ?new x y)"
    by auto
  let ?m = "convert_1 (point (\<lambda>x. if x = 1 then 255 else 0) ret)"
  have r: "raster_full_mask db raster img = Inr ?m"
    using bb md new p by (simp add: raster_full_mask_def)
  have m1: "mode ?m = ''1''" "xsize ?m = nat (width img)" "ysize ?m = nat (height img)"
    using wfr sz by (simp_all add: binarize_eq)
  have m2: "wf_image ?m" using wfr by (rule binarize_wf)
  have m3: "getpixel ?m x y
              = (if x0 \<le> int x \<and> int x < x1 \<and> y0 \<le> int y \<and> int y < y1
                    \<and> getpixel (png_image db raster) (nat (int x - x0)) (nat (int y - y0)) = 1
                 then 255 else 0)"
    if x: "x < nat (width img)" and y: "y < nat (height img)" for x y
  proof -
    have "getpixel ?m x y = (if getpixel ret x y = 1 then 255 else 0)"
      using wfr x y sz by (intro binarize_pixels) simp_all
    moreover have "getpixel ret x y
                 = (if x0 \<le> int x \<and> int x < x1 \<and> y0 \<le> int y \<and> int y < y1
                    then getpixel (png_image db raster) (nat (int x - x0)) (nat (int y - y0))
                    else getpixel ?new x y)"
      using px x y by blast
    moreover have "getpixel ?new x y = 0" using x y by (rule getpixel_blank)
    ultimately show ?thesis by auto
  qed
  show ?thesis using r m1 m2 m3 by blast
qed

lemma unary_codec: "unary_load (unary_b64 (unary_save im)) = im"
  by (simp add: unary_load_def unary_b64_def unary_save_def comp_def map_idI)

subsection \<open>The envelope and the image's dimensions\<close>

text \<open>
  C3 (as stated, refuted). The envelope (2, 2, 4, 4) reaches beyond an image 3 pixels
  wide. Nothing is raised: the column of the patch that lies inside the image is pasted
  and the other is dropped.
\<close>

theorem envelope_beyond_image_width_is_clipped:
  "raster_full_mask
     \<lparr>envelope_coordinates = (\<lambda>_. [[(2, 2), (2, 4), (4, 4), (4, 2), (2, 2)]]),
      png_image = (\<lambda>_. \<lparr>mode = ''L'', xsize = 2, ysize = 2, image8 = [[1, 1], [1, 1]]\<rparr>)\<rparr>
     (0::nat) \<lparr>uid = ''img'', height = 5, width = 3, frame = None\<rparr>
   = Inr \<lparr>mode = ''1'', xsize = 3, ysize = 5,
          image8 = [[0, 0, 0], [0, 0, 0], [0, 0, 255], [0, 0, 255], [0, 0, 0]]\<rparr>"
  by (simp add: raster_full_mask_def get_bounding_box_of_raster_def py_min_def py_max_def
      Image_new_def paste_def clip_axis_def c_int_def in_c_int_def paste_region_def memcpy_def
      binarize_eq wf_image_def eval_nat_numeral)

text \<open>
  C3 (amended). The reconstruction never compares the envelope with the image's
  dimensions. Let the envelope be one ring that is not empty, of points with C-range
  coordinates, and its box be the least and greatest coordinates per axis; let the
  patch be an \<open>L\<close> image whose size is the box's size (and a C-range size), and the
  image's dimensions be positive and within what the library allocates. Then the
  function succeeds wherever the box lies: inside the image, on its border (\<open>x_max\<close>
  equal to the width), or beyond it, in which case the part of the patch outside the
  image is dropped. A pixel of the mask is 255 exactly where it lies in the box and the
  patch has 1 there.
\<close>

theorem mask_reconstruction_clips_envelope:
  assumes "envelope_coordinates db raster = [ring]" and "ring \<noteq> []"
    and "list_all (\<lambda>(x, y). in_c_int x \<and> in_c_int y) ring"
    and "x0 = Min (fst ` set ring)" and "y0 = Min (snd ` set ring)"
    and "x1 = Max (fst ` set ring)" and "y1 = Max (snd ` set ring)"
    and "mode (png_image db raster) = ''L''"
    and "wf_image (png_image db raster)"
    and "x1 - x0 = int (xsize (png_image db raster))"
    and "y1 - y0 = int (ysize (png_image db raster))"
    and "int (xsize (png_image db raster)) < 2 ^ 31"
    and "int (ysize (png_image db raster)) < 2 ^ 31"
    and "0 < width img" and "width img \<le> 536870910"
    and "0 < height img" and "height img < 2 ^ 31"
  shows "\<exists>m. raster_full_mask db raster img = Inr m
           \<and> raster_to_png_b64 save_png b64encode db raster img = Inr (b64encode (save_png m))
           \<and> mode m = ''1'' \<and> xsize m = nat (width img) \<and> ysize m = nat (height img)
           \<and> (\<forall>x<nat (width img). \<forall>y<nat (height img).
                 getpixel m x y
                   = (if x0 \<le> int x \<and> int x < x1 \<and> y0 \<le> int y \<and> int y < y1
                         \<and> getpixel (png_image db raster) (nat (int x - x0)) (nat (int y - y0)) = 1
                      then 255 else 0))"
proof -
  have bb: "get_bounding_box_of_raster db raster = Inr (x0, y0, x1, y1)"
    using bounding_box_of_ring [OF assms(1,2)] assms(4-7) by simp
  have r: "in_c_int x0" "in_c_int y0" "in_c_int x1" "in_c_int y1"
    using ring_extremes_in_c_int [OF assms(2,3)] assms(4-7) by simp_all
  have w: "0 \<le> width img" and h: "0 \<le> height img" using assms(14,16) by simp_all
  from raster_full_mask_pixels
         [OF bb assms(8) assms(9) assms(10) assms(11) r assms(12) assms(13) w assms(15)
             h assms(17)]
  obtain m where m: "raster_full_mask db raster img = Inr m"
    and rest: "mode m = ''1''" "xsize m = nat (width img)" "ysize m = nat (height img)"
      "\<forall>x<nat (width img). \<forall>y<nat (height img).
                 getpixel m x y
                   = (if x0 \<le> int x \<and> int x < x1 \<and> y0 \<le> int y \<and> int y < y1
                         \<and> getpixel (png_image db raster) (nat (int x - x0)) (nat (int y - y0)) = 1
                      then 255 else 0)"
    by blast
  have "xsize m \<noteq> 0" "ysize m \<noteq> 0" using rest(2,3) assms(14,16) by simp_all
  then have "raster_to_png_b64 save_png b64encode db raster img = Inr (b64encode (save_png m))"
    using m by (simp add: raster_to_png_b64_def)
  with m rest show ?thesis by blast
qed

text \<open>
  The ring from (1, 2) to (4, 4) and a patch 3 wide and 2 high, with rows (1, 0, 1) and
  (0, 1, 1). In an image 3 wide the third column of the patch is dropped; in an image 4
  wide, where \<open>x_max\<close> equals the width, all of it is pasted.
\<close>

theorem mask_reconstruction_clips_envelope_witness:
  "(\<exists>m. raster_full_mask
          \<lparr>envelope_coordinates = (\<lambda>_. [[(1, 2), (1, 4), (4, 4), (4, 2), (1, 2)]]),
           png_image = (\<lambda>_. \<lparr>mode = ''L'', xsize = 3, ysize = 2,
                               image8 = [[1, 0, 1], [0, 1, 1]]\<rparr>)\<rparr>
          (0::nat) \<lparr>uid = ''img'', height = 5, width = 3, frame = None\<rparr> = Inr m
        \<and> raster_to_png_b64 unary_save unary_b64
          \<lparr>envelope_coordinates = (\<lambda>_. [[(1, 2), (1, 4), (4, 4), (4, 2), (1, 2)]]),
           png_image = (\<lambda>_. \<lparr>mode = ''L'', xsize = 3, ysize = 2,
                               image8 = [[1, 0, 1], [0, 1, 1]]\<rparr>)\<rparr>
          (0::nat) \<lparr>uid = ''img'', height = 5, width = 3, frame = None\<rparr>
            = Inr (unary_b64 (unary_save m))
        \<and> xsize m = 3 \<and> ysize m = 5
        \<and> getpixel m 1 2 = 255 \<and> getpixel m 2 2 = 0
        \<and> getpixel m 1 3 = 0 \<and> getpixel m 2 3 = 255 \<and> getpixel m 0 2 = 0)
   \<and> (\<exists>m. raster_full_mask
          \<lparr>envelope_coordinates = (\<lambda>_. [[(1, 2), (1, 4), (4, 4), (4, 2), (1, 2)]]),
           png_image = (\<lambda>_. \<lparr>mode = ''L'', xsize = 3, ysize = 2,
                               image8 = [[1, 0, 1], [0, 1, 1]]\<rparr>)\<rparr>
          (0::nat) \<lparr>uid = ''img'', height = 5, width = 4, frame = None\<rparr> = Inr m
        \<and> xsize m = 4 \<and> ysize m = 5
        \<and> getpixel m 1 2 = 255 \<and> getpixel m 2 2 = 0 \<and> getpixel m 3 2 = 255
        \<and> getpixel m 1 3 = 0 \<and> getpixel m 2 3 = 255 \<and> getpixel m 3 3 = 255)"
proof -
  let ?ring = "[(1, 2), (1, 4), (4, 4), (4, 2), (1::int, 2::int)]"
  let ?db = "\<lparr>envelope_coordinates = (\<lambda>_::nat. [?ring]),
           png_image = (\<lambda>_. \<lparr>mode = ''L'', xsize = 3, ysize = 2,
                               image8 = [[1, 0, 1], [0, 1, 1]]\<rparr>)\<rparr>"
  have env: "envelope_coordinates ?db 0 = [?ring]" by simp
  have ne: "?ring \<noteq> []" by simp
  have rng: "list_all (\<lambda>(x, y). in_c_int x \<and> in_c_int y) ?ring"
    by (simp add: in_c_int_def)
  have x0: "1 = Min (fst ` set ?ring)" and y0: "2 = Min (snd ` set ?ring)"
    and x1: "4 = Max (fst ` set ?ring)" and y1: "4 = Max (snd ` set ?ring)"
    by simp_all
  have md: "mode (png_image ?db 0) = ''L''" by simp
  have wf: "wf_image (png_image ?db 0)" by (simp add: wf_image_def)
  have sx: "(4::int) - 1 = int (xsize (png_image ?db 0))" by simp
  have sy: "(4::int) - 2 = int (ysize (png_image ?db 0))" by simp
  have si: "int (xsize (png_image ?db 0)) < 2 ^ 31" "int (ysize (png_image ?db 0)) < 2 ^ 31"
    by simp_all
  let ?img3 = "\<lparr>uid = ''img'', height = 5, width = 3, frame = None\<rparr>"
  let ?img4 = "\<lparr>uid = ''img'', height = 5, width = 4, frame = None\<rparr>"
  have d3: "0 < width ?img3" "width ?img3 \<le> 536870910" "0 < height ?img3"
    "height ?img3 < 2 ^ 31" by simp_all
  have d4: "0 < width ?img4" "width ?img4 \<le> 536870910" "0 < height ?img4"
    "height ?img4 < 2 ^ 31" by simp_all
  from mask_reconstruction_clips_envelope
         [OF env ne rng x0 y0 x1 y1 md wf sx sy si d3, of unary_save unary_b64]
  obtain m3 where m3: "raster_full_mask ?db 0 ?img3 = Inr m3"
    and s3: "raster_to_png_b64 unary_save unary_b64 ?db 0 ?img3
               = Inr (unary_b64 (unary_save m3))"
    and sz3: "xsize m3 = nat (width ?img3)" "ysize m3 = nat (height ?img3)"
    and px3: "\<forall>x<nat (width ?img3). \<forall>y<nat (height ?img3).
                 getpixel m3 x y
                   = (if 1 \<le> int x \<and> int x < 4 \<and> 2 \<le> int y \<and> int y < 4
                         \<and> getpixel (png_image ?db 0) (nat (int x - 1)) (nat (int y - 2)) = 1
                      then 255 else 0)"
    by blast
  have a: "\<exists>m. raster_full_mask ?db 0 ?img3 = Inr m
        \<and> raster_to_png_b64 unary_save unary_b64 ?db 0 ?img3 = Inr (unary_b64 (unary_save m))
        \<and> xsize m = 3 \<and> ysize m = 5
        \<and> getpixel m 1 2 = 255 \<and> getpixel m 2 2 = 0
        \<and> getpixel m 1 3 = 0 \<and> getpixel m 2 3 = 255 \<and> getpixel m 0 2 = 0"
    using m3 s3 sz3 px3 [rule_format, of 1 2] px3 [rule_format, of 2 2]
      px3 [rule_format, of 1 3] px3 [rule_format, of 2 3] px3 [rule_format, of 0 2]
    by (simp add: getpixel_def)
  from mask_reconstruction_clips_envelope
         [OF env ne rng x0 y0 x1 y1 md wf sx sy si d4, of unary_save unary_b64]
  obtain m4 where m4: "raster_full_mask ?db 0 ?img4 = Inr m4"
    and sz4: "xsize m4 = nat (width ?img4)" "ysize m4 = nat (height ?img4)"
    and px4: "\<forall>x<nat (width ?img4). \<forall>y<nat (height ?img4).
                 getpixel m4 x y
                   = (if 1 \<le> int x \<and> int x < 4 \<and> 2 \<le> int y \<and> int y < 4
                         \<and> getpixel (png_image ?db 0) (nat (int x - 1)) (nat (int y - 2)) = 1
                      then 255 else 0)"
    by blast
  have b: "\<exists>m. raster_full_mask ?db 0 ?img4 = Inr m
        \<and> xsize m = 4 \<and> ysize m = 5
        \<and> getpixel m 1 2 = 255 \<and> getpixel m 2 2 = 0 \<and> getpixel m 3 2 = 255
        \<and> getpixel m 1 3 = 0 \<and> getpixel m 2 3 = 255 \<and> getpixel m 3 3 = 255"
    using m4 sz4 px4 [rule_format, of 1 2] px4 [rule_format, of 2 2] px4 [rule_format, of 3 2]
      px4 [rule_format, of 1 3] px4 [rule_format, of 2 3] px4 [rule_format, of 3 3]
    by (simp add: getpixel_def)
  from a b show ?thesis by blast
qed

subsection \<open>Round trip of a mask\<close>

lemma two_level_rows:
  assumes "wf_image m"
    and "\<forall>x<xsize m. \<forall>y<ysize m. getpixel m x y = 255 \<or> getpixel m x y = 0"
  shows "list_all (list_all (\<lambda>p. p = 0 \<or> p = 255)) (image8 m)"
  using assms by (auto simp: wf_image_nth list_all_length getpixel_def)

text \<open>
  C4. Let the envelope be one ring that is not empty and its box be the least and
  greatest coordinates per axis; let the patch be an \<open>L\<close> image whose size is the box's
  size, the box lie inside the image, and the image's dimensions be positive and within
  what the library allocates. Whatever the PNG writer and the base64 encoder are, if a
  reader gives back every two-level image they wrote, then the function returns a
  string, and the image read back from it is a two-level image of the declared
  dimensions (every pixel 255 or 0) whose foreground, the set of its pixels that are
  255, is exactly the set of the patch's pixels that are 1, moved by the box's top-left
  corner; every pixel outside the box is 0.
\<close>

theorem mask_round_trip:
  assumes env: "envelope_coordinates db raster = [ring]" and ne: "ring \<noteq> []"
    and x0: "x0 = Min (fst ` set ring)" and y0: "y0 = Min (snd ` set ring)"
    and x1: "x1 = Max (fst ` set ring)" and y1: "y1 = Max (snd ` set ring)"
    and md: "mode (png_image db raster) = ''L''"
    and wf: "wf_image (png_image db raster)"
    and sx: "x1 - x0 = int (xsize (png_image db raster))"
    and sy: "y1 - y0 = int (ysize (png_image db raster))"
    and inside: "0 \<le> x0" "x1 \<le> width img" "0 \<le> y0" "y1 \<le> height img"
    and dims: "0 < width img" "width img \<le> 536870910" "0 < height img" "height img < 2 ^ 31"
    and codec: "\<And>im. mode im = ''1'' \<Longrightarrow> wf_image im \<Longrightarrow> 0 < xsize im \<Longrightarrow> 0 < ysize im \<Longrightarrow>
                  list_all (list_all (\<lambda>p. p = 0 \<or> p = 255)) (image8 im) \<Longrightarrow>
                  load (b64encode (save_png im)) = im"
  shows "\<exists>s. raster_to_png_b64 save_png b64encode db raster img = Inr s
           \<and> mode (load s) = ''1''
           \<and> xsize (load s) = nat (width img) \<and> ysize (load s) = nat (height img)
           \<and> wf_image (load s)
           \<and> (\<forall>x<nat (width img). \<forall>y<nat (height img).
                 getpixel (load s) x y = 255 \<or> getpixel (load s) x y = 0)
           \<and> {(x, y). x < nat (width img) \<and> y < nat (height img) \<and> getpixel (load s) x y = 255}
               = (\<lambda>(i, j). (nat x0 + i, nat y0 + j)) `
                   {(i, j). i < xsize (png_image db raster) \<and> j < ysize (png_image db raster)
                            \<and> getpixel (png_image db raster) i j = 1}
           \<and> (\<forall>x<nat (width img). \<forall>y<nat (height img).
                 \<not> (x0 \<le> int x \<and> int x < x1 \<and> y0 \<le> int y \<and> int y < y1)
                 \<longrightarrow> getpixel (load s) x y = 0)"
proof -
  let ?patch = "png_image db raster"
  let ?W = "nat (width img)" and ?H = "nat (height img)"
  have bb: "get_bounding_box_of_raster db raster = Inr (x0, y0, x1, y1)"
    using bounding_box_of_ring [OF env ne] x0 y0 x1 y1 by simp
  have r: "in_c_int x0" "in_c_int y0" "in_c_int x1" "in_c_int y1"
    using sx sy inside dims by (simp_all add: in_c_int_def)
  have si: "int (xsize ?patch) < 2 ^ 31" "int (ysize ?patch) < 2 ^ 31"
    using sx [symmetric] sy [symmetric] inside dims by simp_all
  have w: "0 \<le> width img" and h: "0 \<le> height img"
    using dims by simp_all
  from raster_full_mask_pixels [OF bb md wf sx sy r si w dims(2) h dims(4)]
  obtain m where m: "raster_full_mask db raster img = Inr m"
    and m1: "mode m = ''1''" "xsize m = ?W" "ysize m = ?H" "wf_image m"
    and px: "\<And>x y. x < ?W \<Longrightarrow> y < ?H \<Longrightarrow>
               getpixel m x y
                 = (if x0 \<le> int x \<and> int x < x1 \<and> y0 \<le> int y \<and> int y < y1
                       \<and> getpixel ?patch (nat (int x - x0)) (nat (int y - y0)) = 1
                    then 255 else 0)"
    by blast
  let ?s = "b64encode (save_png m)"
  have pos: "0 < xsize m" "0 < ysize m" using m1 dims by simp_all
  have s: "raster_to_png_b64 save_png b64encode db raster img = Inr ?s"
    using m pos by (simp add: raster_to_png_b64_def)
  have two: "\<forall>x<?W. \<forall>y<?H. getpixel m x y = 255 \<or> getpixel m x y = 0"
    using px by simp
  have rows: "list_all (list_all (\<lambda>p. p = 0 \<or> p = 255)) (image8 m)"
    using m1(4) two unfolding m1(2,3) [symmetric] by (rule two_level_rows)
  have l: "load ?s = m" using m1(1) m1(4) pos rows by (rule codec)
  have out: "\<forall>x<?W. \<forall>y<?H.
      \<not> (x0 \<le> int x \<and> int x < x1 \<and> y0 \<le> int y \<and> int y < y1) \<longrightarrow> getpixel m x y = 0"
    using px by auto
  have fg: "{(x, y). x < ?W \<and> y < ?H \<and> getpixel m x y = 255}
               = (\<lambda>(i, j). (nat x0 + i, nat y0 + j)) `
                   {(i, j). i < xsize ?patch \<and> j < ysize ?patch \<and> getpixel ?patch i j = 1}"
    (is "?A = ?f ` ?B")
  proof (intro set_eqI iffI)
    fix p assume "p \<in> ?A"
    then obtain x y where p: "p = (x, y)" and x: "x < ?W" and y: "y < ?H"
      and v: "getpixel m x y = 255" by auto
    have c: "x0 \<le> int x \<and> int x < x1 \<and> y0 \<le> int y \<and> int y < y1
               \<and> getpixel ?patch (nat (int x - x0)) (nat (int y - y0)) = 1"
      using px [OF x y] v by (auto split: if_splits)
    let ?i = "nat (int x - x0)" and ?j = "nat (int y - y0)"
    have "?i < xsize ?patch" "?j < ysize ?patch" using c sx sy by linarith+
    moreover have "x = nat x0 + ?i" "y = nat y0 + ?j" using c inside by linarith+
    ultimately have "(?i, ?j) \<in> ?B" "p = ?f (?i, ?j)" using c p by auto
    then show "p \<in> ?f ` ?B" by (rule_tac image_eqI)
  next
    fix p assume "p \<in> ?f ` ?B"
    then obtain i j where p: "p = (nat x0 + i, nat y0 + j)"
      and i: "i < xsize ?patch" and j: "j < ysize ?patch" and v: "getpixel ?patch i j = 1"
      by auto
    let ?x = "nat x0 + i" and ?y = "nat y0 + j"
    have x: "?x < ?W" and y: "?y < ?H" using i j sx sy inside by linarith+
    have c: "x0 \<le> int ?x \<and> int ?x < x1 \<and> y0 \<le> int ?y \<and> int ?y < y1"
      using i j sx sy inside by linarith
    have e: "nat (int ?x - x0) = i" "nat (int ?y - y0) = j" using inside by linarith+
    have "getpixel m ?x ?y = 255" using px [OF x y] c v e by simp
    then show "p \<in> ?A" using p x y by simp
  qed
  show ?thesis
    using s l m1 two fg out by (intro exI [of _ ?s]) simp
qed

text \<open>
  The ring from (1, 2) to (4, 4) in an image 6 wide and 5 high, and a patch 3 wide and 2
  high with rows (1, 0, 0) and (0, 1, 1): the foreground read back is (1, 2), (2, 3),
  (3, 3).
\<close>

theorem mask_round_trip_witness:
  "\<exists>s. raster_to_png_b64 unary_save unary_b64
          \<lparr>envelope_coordinates = (\<lambda>_. [[(1, 2), (1, 4), (4, 4), (4, 2), (1, 2)]]),
           png_image = (\<lambda>_. \<lparr>mode = ''L'', xsize = 3, ysize = 2,
                               image8 = [[1, 0, 0], [0, 1, 1]]\<rparr>)\<rparr>
          (0::nat) \<lparr>uid = ''img'', height = 5, width = 6, frame = None\<rparr> = Inr s
       \<and> mode (unary_load s) = ''1''
       \<and> xsize (unary_load s) = 6 \<and> ysize (unary_load s) = 5
       \<and> {(x, y). x < 6 \<and> y < 5 \<and> getpixel (unary_load s) x y = 255}
           = {(1, 2), (2, 3), (3, 3)}"
proof -
  let ?ring = "[(1, 2), (1, 4), (4, 4), (4, 2), (1::int, 2::int)]"
  let ?db = "\<lparr>envelope_coordinates = (\<lambda>_::nat. [?ring]),
           png_image = (\<lambda>_. \<lparr>mode = ''L'', xsize = 3, ysize = 2,
                               image8 = [[1, 0, 0], [0, 1, 1]]\<rparr>)\<rparr>"
  let ?img = "\<lparr>uid = ''img'', height = 5, width = 6, frame = None\<rparr>"
  have env: "envelope_coordinates ?db 0 = [?ring]" by simp
  have ne: "?ring \<noteq> []" by simp
  have x0: "1 = Min (fst ` set ?ring)" and y0: "2 = Min (snd ` set ?ring)"
    and x1: "4 = Max (fst ` set ?ring)" and y1: "4 = Max (snd ` set ?ring)"
    by simp_all
  have md: "mode (png_image ?db 0) = ''L''" by simp
  have wf: "wf_image (png_image ?db 0)" by (simp add: wf_image_def)
  have sx: "(4::int) - 1 = int (xsize (png_image ?db 0))" by simp
  have sy: "(4::int) - 2 = int (ysize (png_image ?db 0))" by simp
  have inside: "(0::int) \<le> 1" "4 \<le> width ?img" "(0::int) \<le> 2" "4 \<le> height ?img"
    by simp_all
  have dims: "0 < width ?img" "width ?img \<le> 536870910" "0 < height ?img"
    "height ?img < 2 ^ 31" by simp_all
  have fgp: "{(i, j). i < xsize (png_image ?db 0) \<and> j < ysize (png_image ?db 0)
                      \<and> getpixel (png_image ?db 0) i j = 1}
               = {(0, 0), (1, 1), (2, 1)}"
    by (auto simp: getpixel_def less_Suc_eq numeral_2_eq_2 numeral_3_eq_3)
  from mask_round_trip [OF env ne x0 y0 x1 y1 md wf sx sy inside dims unary_codec]
  obtain s where s: "raster_to_png_b64 unary_save unary_b64 ?db 0 ?img = Inr s"
    and m: "mode (unary_load s) = ''1''"
    and sz: "xsize (unary_load s) = nat (width ?img)" "ysize (unary_load s) = nat (height ?img)"
    and fg: "{(x, y). x < nat (width ?img) \<and> y < nat (height ?img)
                       \<and> getpixel (unary_load s) x y = 255}
               = (\<lambda>(i, j). (nat 1 + i, nat 2 + j)) `
                   {(i, j). i < xsize (png_image ?db 0) \<and> j < ysize (png_image ?db 0)
                            \<and> getpixel (png_image ?db 0) i j = 1}"
    by blast
  have "{(x, y). x < 6 \<and> y < 5 \<and> getpixel (unary_load s) x y = 255}
          = {(1, 2), (2, 3), (3, 3)}"
    using fg unfolding fgp by (simp add: numeral_2_eq_2 numeral_3_eq_3)
  with s m sz show ?thesis by auto
qed

subsection \<open>The format of the decoded raster\<close>

text \<open>
  C8. A decoded raster whose mode is not \<open>L\<close> (8-bit single-channel greyscale), so in
  particular every multi-channel raster, never yields a mask or a string: the function
  fails. When the envelope query has answered, the failure is the assertion on the
  mode (the spec's \<open>MaskFormatError\<close>), whatever the image's declared dimensions and
  the envelope are, since the full mask is allocated and pasted only after the
  assertion.
\<close>

theorem non_greyscale_raster_is_rejected:
  assumes "mode (png_image db raster) \<noteq> ''L''"
  shows "(\<exists>e. raster_full_mask db raster img = Inl e)
       \<and> (\<exists>e. raster_to_png_b64 save_png b64encode db raster img = Inl e)
       \<and> (\<forall>box. get_bounding_box_of_raster db raster = Inr box \<longrightarrow>
             raster_full_mask db raster img = Inl (AssertionError Raster_mode_is_L)
             \<and> raster_to_png_b64 save_png b64encode db raster img
                 = Inl (AssertionError Raster_mode_is_L))"
  using assms
  by (auto simp: raster_full_mask_def raster_to_png_b64_def split: sum.splits)

text \<open>
  An \<open>RGB\<close> raster and an image of height -1: the assertion fails, and the ValueError
  that allocating the mask would raise is never reached.
\<close>

theorem non_greyscale_raster_is_rejected_witness:
  "raster_full_mask
     \<lparr>envelope_coordinates = (\<lambda>_. [[(2, 2), (2, 4), (4, 4), (4, 2), (2, 2)]]),
      png_image = (\<lambda>_. \<lparr>mode = ''RGB'', xsize = 2, ysize = 2, image8 = [[1, 0], [1, 1]]\<rparr>)\<rparr>
     (0::nat) \<lparr>uid = ''img'', height = - 1, width = 5, frame = None\<rparr>
   = Inl (AssertionError Raster_mode_is_L)
   \<and> raster_to_png_b64 unary_save unary_b64
     \<lparr>envelope_coordinates = (\<lambda>_. [[(2, 2), (2, 4), (4, 4), (4, 2), (2, 2)]]),
      png_image = (\<lambda>_. \<lparr>mode = ''RGB'', xsize = 2, ysize = 2, image8 = [[1, 0], [1, 1]]\<rparr>)\<rparr>
     (0::nat) \<lparr>uid = ''img'', height = - 1, width = 5, frame = None\<rparr>
   = Inl (AssertionError Raster_mode_is_L)"
proof -
  let ?db = "\<lparr>envelope_coordinates = (\<lambda>_::nat. [[(2, 2), (2, 4), (4, 4), (4, 2), (2::int, 2::int)]]),
      png_image = (\<lambda>_. \<lparr>mode = ''RGB'', xsize = 2, ysize = 2, image8 = [[1, 0], [1, 1]]\<rparr>)\<rparr>"
  have md: "mode (png_image ?db 0) \<noteq> ''L''" by simp
  have bb: "get_bounding_box_of_raster ?db 0 = Inr (2, 2, 4, 4)"
    by (simp add: get_bounding_box_of_raster_def py_min_def py_max_def)
  from non_greyscale_raster_is_rejected
         [OF md, of "\<lparr>uid = ''img'', height = - 1, width = 5, frame = None\<rparr>"
            unary_save unary_b64] bb
  show ?thesis by blast
qed

subsection \<open>Binarization\<close>



end
